theory Spec2Isabelle
  imports Complex_Main
begin

section \<open>JavaScript values and library behaviour the handlers rely on\<close>

text \<open>
  The repository is four serverless functions written in JavaScript:
  \<^verbatim>\<open>src/api/webhook.js\<close> (payment notifications), \<^verbatim>\<open>src/api/create-preference.js\<close>
  (one-time checkout), and two unnamed variants, \<^verbatim>\<open>src/unnamed/part_000\<close>
  (subscription checkout) and \<^verbatim>\<open>src/unnamed/part_001\<close> (the same webhook and checkout for
  another hosting platform). The model follows \<^verbatim>\<open>webhook.js\<close>,
  \<^verbatim>\<open>create-preference.js\<close> and \<^verbatim>\<open>part_000\<close> line by line. The variants in
  \<^verbatim>\<open>part_001\<close> run the same steps in the same order; they differ in how the platform
  hands over the request (the body is parsed inside the \<^verbatim>\<open>try\<close> block, the answer is
  returned instead of sent) and in that an empty plan or duration in the reference is
  kept as it is instead of being replaced before the table lookup, which then gives the
  same defaults.

  Strings are \<open>string\<close> (one \<open>char\<close> per code unit, so the text is ASCII or Latin-1).
  A property that may be \<^verbatim>\<open>undefined\<close> is an \<open>option\<close>. A thrown exception is a
  value of \<open>error\<close>; a function that can throw after it has written to the
  database returns the error together with the state it leaves behind.
\<close>

datatype error =
    UpstreamError     \<comment> \<open>a call to the payment processor failed\<close>
  | AuthError         \<comment> \<open>\<^verbatim>\<open>auth.createUser\<close> rejected\<close>
  | DatabaseError     \<comment> \<open>a database read or write rejected\<close>
  | RangeError        \<comment> \<open>\<^verbatim>\<open>toISOString\<close> on an invalid date, or buffers of different length\<close>
  | TypeError         \<comment> \<open>property access on \<^verbatim>\<open>null\<close>\<close>

text \<open>JavaScript truthiness of an optional string: \<^verbatim>\<open>undefined\<close> and \<^verbatim>\<open>''\<close> are falsy.\<close>

definition truthy :: "string option \<Rightarrow> bool" where
  "truthy s = (case s of None \<Rightarrow> False | Some v \<Rightarrow> v \<noteq> [])"

text \<open>\<^verbatim>\<open>a || d\<close> on an optional string with a string default.\<close>

definition or_else :: "string option \<Rightarrow> string \<Rightarrow> string" where
  "or_else s d = (case s of None \<Rightarrow> d | Some v \<Rightarrow> if v = [] then d else v)"

text \<open>\<^verbatim>\<open>a || b\<close> on two optional strings.\<close>

definition or_opt :: "string option \<Rightarrow> string option \<Rightarrow> string option" where
  "or_opt a b = (if truthy a then a else b)"

subsection \<open>Property lookup on an object literal\<close>

text \<open>
  \<^verbatim>\<open>TABLE[key]\<close> on an object literal finds the literal's own property, and
  otherwise the property of that name on \<^verbatim>\<open>Object.prototype\<close>, which every object
  literal inherits from. The inherited values are built-in functions (and, for
  \<^verbatim>\<open>__proto__\<close>, the prototype object itself): all of them truthy.
\<close>

datatype 'a js = Val 'a | Builtin string | Undefined

definition object_prototype_keys :: "string list" where
  "object_prototype_keys =
     [''constructor'', ''__defineGetter__'', ''__defineSetter__'', ''hasOwnProperty'',
      ''__lookupGetter__'', ''__lookupSetter__'', ''isPrototypeOf'',
      ''propertyIsEnumerable'', ''toString'', ''valueOf'', ''__proto__'',
      ''toLocaleString'']"

definition js_get :: "(string \<times> 'a) list \<Rightarrow> string \<Rightarrow> 'a js" where
  "js_get obj k =
     (case map_of obj k of
        Some v \<Rightarrow> Val v
      | None \<Rightarrow> if k \<in> set object_prototype_keys then Builtin k else Undefined)"

text \<open>
  The value of \<^verbatim>\<open>TABLE[key] || d\<close>. The tables below hold only truthy values (non-zero
  numbers, non-empty strings), so only \<^verbatim>\<open>undefined\<close> gives way to the default.
\<close>

definition or_default :: "'a js \<Rightarrow> 'a \<Rightarrow> 'a js" where
  "or_default p d = (case p of Undefined \<Rightarrow> Val d | _ \<Rightarrow> p)"

subsection \<open>Dates\<close>

text \<open>
  A \<^verbatim>\<open>Date\<close> is its time value: milliseconds since 1970-01-01T00:00:00Z, an integer.
  The functions below are those of ECMA-262, section "Date Objects", which
  \<^verbatim>\<open>getMonth\<close>, \<^verbatim>\<open>setMonth\<close> and \<^verbatim>\<open>toISOString\<close> are defined by.
  \<open>YearFromTime\<close> is specified there as the largest year whose first day is not after
  the given time; it is computed here from an estimate that is at most one year off
  (lemma \<open>YearFromDay_bounds\<close> shows it meets the specification).
\<close>

definition msPerDay :: int where
  "msPerDay = 86400000"

definition Day :: "int \<Rightarrow> int" where
  "Day t = t div msPerDay"

definition TimeWithinDay :: "int \<Rightarrow> int" where
  "TimeWithinDay t = t mod msPerDay"

definition DayFromYear :: "int \<Rightarrow> int" where
  "DayFromYear y =
     365 * (y - 1970) + (y - 1969) div 4 - (y - 1901) div 100 + (y - 1601) div 400"

definition DaysInYear :: "int \<Rightarrow> int" where
  "DaysInYear y =
     (if y mod 4 \<noteq> 0 then 365 else if y mod 100 \<noteq> 0 then 366
      else if y mod 400 \<noteq> 0 then 365 else 366)"

definition YearFromDay :: "int \<Rightarrow> int" where
  "YearFromDay d =
     (let y = 1970 + (400 * d) div 146097
      in if DayFromYear (y + 1) \<le> d then y + 1
         else if DayFromYear y \<le> d then y
         else y - 1)"

definition YearFromTime :: "int \<Rightarrow> int" where
  "YearFromTime t = YearFromDay (Day t)"

definition InLeapYear :: "int \<Rightarrow> int" where
  "InLeapYear t = (if DaysInYear (YearFromTime t) = 366 then 1 else 0)"

definition DayWithinYear :: "int \<Rightarrow> int" where
  "DayWithinYear t = Day t - DayFromYear (YearFromTime t)"

definition MonthFromTime :: "int \<Rightarrow> int" where
  "MonthFromTime t =
     (let d = DayWithinYear t; l = InLeapYear t
      in if d < 31 then 0
         else if d < 59 + l then 1
         else if d < 90 + l then 2
         else if d < 120 + l then 3
         else if d < 151 + l then 4
         else if d < 181 + l then 5
         else if d < 212 + l then 6
         else if d < 243 + l then 7
         else if d < 273 + l then 8
         else if d < 304 + l then 9
         else if d < 334 + l then 10
         else 11)"

text \<open>The day of the year on which month \<open>m\<close> (0 to 11) starts; \<open>l\<close> is 1 in a leap year.\<close>

definition month_start :: "int \<Rightarrow> int \<Rightarrow> int" where
  "month_start l m =
     (if m = 0 then 0
      else if m = 1 then 31
      else if m = 2 then 59 + l
      else if m = 3 then 90 + l
      else if m = 4 then 120 + l
      else if m = 5 then 151 + l
      else if m = 6 then 181 + l
      else if m = 7 then 212 + l
      else if m = 8 then 243 + l
      else if m = 9 then 273 + l
      else if m = 10 then 304 + l
      else 334 + l)"

definition DateFromTime :: "int \<Rightarrow> int" where
  "DateFromTime t = DayWithinYear t - month_start (InLeapYear t) (MonthFromTime t) + 1"

text \<open>
  \<open>MakeDay year month date\<close>: the month may lie outside 0 to 11 and the date outside the
  month; both roll over into the following (or preceding) months and years. This is the
  raw month increment: no clamping to the end of the month.
\<close>

definition MakeDay :: "int \<Rightarrow> int \<Rightarrow> int \<Rightarrow> int" where
  "MakeDay year month date =
     (let ym = year + month div 12;
          mn = month mod 12;
          l = (if DaysInYear ym = 366 then 1 else 0)
      in DayFromYear ym + month_start l mn + date - 1)"

definition MakeDate :: "int \<Rightarrow> int \<Rightarrow> int" where
  "MakeDate day time = day * msPerDay + time"

text \<open>
  \<open>TimeClip\<close>: a time value further than 8.64e15 ms from the epoch is not a valid date
  (\<open>None\<close> is the invalid date, on which \<^verbatim>\<open>toISOString\<close> throws a \<^verbatim>\<open>RangeError\<close>).
\<close>

definition TimeClip :: "int \<Rightarrow> int option" where
  "TimeClip t = (if \<bar>t\<bar> \<le> 8640000000000000 then Some t else None)"

text \<open>
  \<^verbatim>\<open>getMonth\<close> and \<^verbatim>\<open>setMonth\<close> work in local time. ECMA-262 goes from a time value to
  local time and back with the host's \<open>LocalTZA(t, isUTC)\<close>: the offset of local time
  from UTC, in milliseconds, that is in force at the instant \<open>t\<close> when \<open>isUTC\<close> is true,
  and at the local time \<open>t\<close> when it is false. With daylight saving time the offset
  changes from one instant to another. The host's time zone is not part of the
  repository: it is the parameter \<open>z\<close> below, any function of this kind.
\<close>

type_synonym time_zone = "int \<Rightarrow> bool \<Rightarrow> int"

definition LocalTime :: "time_zone \<Rightarrow> int \<Rightarrow> int" where
  "LocalTime z t = t + z t True"

definition UTC :: "time_zone \<Rightarrow> int \<Rightarrow> int" where
  "UTC z t = t - z t False"

definition getMonth :: "time_zone \<Rightarrow> int \<Rightarrow> int" where
  "getMonth z t = MonthFromTime (LocalTime z t)"

definition setMonth :: "time_zone \<Rightarrow> int \<Rightarrow> int \<Rightarrow> int option" where
  "setMonth z t month =
     (let lt = LocalTime z t;
          newDate = MakeDate (MakeDay (YearFromTime lt) month (DateFromTime lt)) (TimeWithinDay lt)
      in TimeClip (UTC z newDate))"

text \<open>
  \<open>add_months z t m\<close> is \<^verbatim>\<open>d.setMonth(d.getMonth() + m)\<close> on a date \<open>d\<close> with time
  value \<open>t\<close>: the date with the same local year, day of month and time of day and the
  month number raised by \<open>m\<close>, rolled over.
\<close>

definition add_months :: "time_zone \<Rightarrow> int \<Rightarrow> int \<Rightarrow> int option" where
  "add_months z t m = setMonth z t (getMonth z t + m)"

section \<open>The external collaborators\<close>

subsection \<open>The database and the identity provider\<close>

text \<open>
  The Realtime Database holds one node per user, \<^verbatim>\<open>users/{uid}\<close>. The node's license
  fields are those \<^verbatim>\<open>activateLicense\<close> writes. \<^verbatim>\<open>ExpirationDate\<close>, \<^verbatim>\<open>UpdatedAt\<close>,
  \<^verbatim>\<open>CreatedAt\<close> and the dates inside the sub-records are stored as the ISO-8601 text that
  \<^verbatim>\<open>toISOString\<close> produces and \<^verbatim>\<open>new Date(text)\<close> reads back: they are modelled by the
  time value the text denotes. The payment history is keyed by the processor's payment
  id, one path segment of the database.
\<close>

record payment_entry =
  pe_plan :: string
  pe_duration :: "string option"
  pe_amount :: real
  pe_currency :: string
  pe_date :: int
  pe_type :: string

record subscription_state =
  ss_preapprovalId :: string
  ss_plan :: string
  ss_status :: string
  ss_lastRenewal :: int
  ss_nextBilling :: int

record user_node =
  Email :: "string option"
  IsActive :: "bool option"
  LicenseType :: "string option"
  ExpirationDate :: "int option"
  MaxDevices :: "int option"
  UpdatedAt :: "int option"
  CreatedAt :: "int option"
  ValidationCount :: "int option"
  activations :: "string list"
  payments :: "string \<rightharpoonup> payment_entry"
  subscription :: "subscription_state option"

definition empty_node :: user_node where
  "empty_node =
     \<lparr>Email = None, IsActive = None, LicenseType = None, ExpirationDate = None,
      MaxDevices = None, UpdatedAt = None, CreatedAt = None, ValidationCount = None,
      activations = [], payments = Map.empty, subscription = None\<rparr>"

text \<open>
  \<open>accounts\<close> is Firebase Auth (email to uid), \<open>users\<close> the database (uid to node; a
  node that does not exist reads as the empty node), \<open>outbox\<close> the activation emails
  requested from the identity provider.
\<close>

record world =
  accounts :: "string \<rightharpoonup> string"
  users :: "string \<rightharpoonup> user_node"
  outbox :: "string list"

definition node_of :: "world \<Rightarrow> string \<Rightarrow> user_node" where
  "node_of w uid = (case users w uid of None \<Rightarrow> empty_node | Some n \<Rightarrow> n)"

subsection \<open>The payment processor\<close>

text \<open>
  The decoded \<^verbatim>\<open>external_reference\<close> of a payment: \<^verbatim>\<open>JSON.parse\<close> of the stored text,
  with \<^verbatim>\<open>{}\<close> when the text is absent, empty or does not parse. \<open>Ref e p d\<close> is
  an object with the (optional) string properties \<^verbatim>\<open>e\<close>, \<^verbatim>\<open>p\<close>, \<^verbatim>\<open>d\<close> (a number
  or a string, which has none of them, is \<open>Ref None None None\<close>); \<open>RefNull\<close> is the
  text \<^verbatim>\<open>null\<close>, which parses to \<^verbatim>\<open>null\<close>.
\<close>

datatype reference = Ref "string option" "string option" "string option" | RefNull

record payment =
  p_status :: string
  p_external_reference :: reference
  p_transaction_amount :: "real option"
  p_currency_id :: "string option"

record auto_recurring =
  ar_transaction_amount :: "real option"
  ar_currency_id :: "string option"

record preapproval =
  s_status :: string
  s_payer_email :: "string option"
  s_auto_recurring :: "auto_recurring option"

text \<open>
  The answer to \<^verbatim>\<open>GET /v1/subscription_authorized_payments/{id}\<close>: \<open>NotOk\<close> is a
  response whose status is not 2xx, \<open>Ok preapproval_id status\<close> a 2xx response with its
  JSON body.
\<close>

datatype authorized_payment = NotOk | Ok "string option" string

subsection \<open>Configuration and environment\<close>

datatype db_operation = ReadExpiration | UpdateUser | SetPayment | SetSubscription

text \<open>
  Everything a request depends on that is not in the repository: the environment
  variables, the host's time zone (\<open>LocalTZA\<close>), what the processor answers for an id, the uid the
  identity provider gives a new account, which database operations go through, and the
  HMAC-SHA256 of the \<^verbatim>\<open>crypto\<close> module (key, then message; the result is the digest as
  a list of bytes, one \<open>char\<close> per byte).
\<close>

record env =
  MP_WEBHOOK_SECRET :: "string option"
  FIREBASE_API_KEY :: "string option"
  LocalTZA :: time_zone
  payment_get :: "string \<Rightarrow> error + payment"
  preapproval_get :: "string \<Rightarrow> error + preapproval"
  authorized_payment_get :: "string \<Rightarrow> error + authorized_payment"
  createUser :: "string \<Rightarrow> error + string"
  db_ok :: "db_operation \<Rightarrow> bool"
  hmac_sha256 :: "string \<Rightarrow> string \<Rightarrow> string"

section \<open>The webhook: \<^verbatim>\<open>src/api/webhook.js\<close>\<close>

subsection \<open>Conversion tables (lines 48 to 50)\<close>

definition DURATION_MONTHS :: "(string \<times> int) list" where
  "DURATION_MONTHS = [(''1m'', 1), (''3m'', 3), (''6m'', 6), (''12m'', 12)]"

definition DURATION_LICENSE :: "(string \<times> string) list" where
  "DURATION_LICENSE =
     [(''1m'', ''Monthly''), (''3m'', ''Monthly''), (''6m'', ''Monthly''), (''12m'', ''Annual'')]"

definition PLAN_MAX_DEVICES :: "(string \<times> int) list" where
  "PLAN_MAX_DEVICES = [(''individual'', 1), (''profesional'', 3)]"

subsection \<open>\<^verbatim>\<open>activateLicense\<close> (lines 194 to 283)\<close>

text \<open>The grant descriptor \<^verbatim>\<open>info\<close>.\<close>

record grant =
  licenseType :: "string js"
  months :: "int js"
  maxDevices :: "int js"
  paymentId :: "string option"
  preapprovalId :: "string option"
  plan :: string
  duration :: "string option"
  amount :: "real option"
  currency :: "string option"
  paymentType :: string

text \<open>
  Step 1 (lines 196 to 214): the uid of the account with this email; when
  \<^verbatim>\<open>getUserByEmail\<close> rejects, a new account is created. The second component is
  \<^verbatim>\<open>isNewUser\<close>.
\<close>

definition find_or_create :: "env \<Rightarrow> string \<Rightarrow> world \<Rightarrow> (error + string \<times> bool) \<times> world" where
  "find_or_create ev email w =
     (case accounts w email of
        Some uid \<Rightarrow> (Inr (uid, False), w)
      | None \<Rightarrow>
          (case createUser ev email of
             Inl e \<Rightarrow> (Inl e, w)
           | Inr uid \<Rightarrow> (Inr (uid, True), w\<lparr>accounts := (accounts w)(email \<mapsto> uid)\<rparr>)))"

text \<open>
  Step 2 (lines 221 to 227): the extension base date. \<open>now\<close> is the clock as read by
  \<^verbatim>\<open>const now = new Date()\<close> and \<open>now'\<close> as read by \<^verbatim>\<open>let baseDate = new Date()\<close> on the
  next line. A stored expiration that is absent, falsy or not a date leaves the base at
  \<open>now'\<close>.
\<close>

definition baseDate :: "int \<Rightarrow> int \<Rightarrow> int option \<Rightarrow> int" where
  "baseDate now now' currentExp =
     (case currentExp of
        None \<Rightarrow> now'
      | Some existingExp \<Rightarrow> if existingExp > now then existingExp else now')"

text \<open>
  Lines 229 and 230: \<^verbatim>\<open>baseDate.setMonth(baseDate.getMonth() + info.months)\<close> and
  \<^verbatim>\<open>toISOString\<close>. When \<^verbatim>\<open>info.months\<close> is not a number but a built-in function, the sum
  is not a number, the date becomes invalid and \<^verbatim>\<open>toISOString\<close> throws.
\<close>

definition newExpDate :: "time_zone \<Rightarrow> int \<Rightarrow> int \<Rightarrow> int option \<Rightarrow> int js \<Rightarrow> error + int" where
  "newExpDate z now now' currentExp ms =
     (case ms of
        Val m \<Rightarrow>
          (case add_months z (baseDate now now' currentExp) m of
             None \<Rightarrow> Inl RangeError
           | Some t \<Rightarrow> Inr t)
      | _ \<Rightarrow> Inl RangeError)"

text \<open>
  Step 3 (lines 233 to 249): \<^verbatim>\<open>update\<close> writes the listed keys of the node and leaves
  every other key as it is. The database client refuses a value that is a function or
  \<^verbatim>\<open>undefined\<close>.
\<close>

definition license_update :: "string \<Rightarrow> string \<Rightarrow> int \<Rightarrow> int \<Rightarrow> int \<Rightarrow> bool \<Rightarrow> user_node \<Rightarrow> user_node" where
  "license_update email lt newExp md now isNewUser n =
     (let n1 = n\<lparr>Email := Some email, IsActive := Some True, LicenseType := Some lt,
                 ExpirationDate := Some newExp, MaxDevices := Some md, UpdatedAt := Some now\<rparr>
      in if isNewUser
         then n1\<lparr>CreatedAt := Some now, ValidationCount := Some 0, activations := []\<rparr>
         else n1)"

text \<open>Step 4 (lines 252 to 261): the payment-history entry.\<close>

definition history_entry :: "grant \<Rightarrow> int \<Rightarrow> payment_entry" where
  "history_entry info now =
     \<lparr>pe_plan = plan info,
      pe_duration = (if truthy (duration info) then duration info else None),
      pe_amount = (case amount info of None \<Rightarrow> 0 | Some a \<Rightarrow> a),
      pe_currency = or_else (currency info) ''USD'',
      pe_date = now,
      pe_type = paymentType info\<rparr>"

text \<open>Step 5 (lines 264 to 272): the subscription sub-record.\<close>

definition subscription_entry :: "string \<Rightarrow> grant \<Rightarrow> int \<Rightarrow> int \<Rightarrow> subscription_state" where
  "subscription_entry pre info now newExp =
     \<lparr>ss_preapprovalId = pre, ss_plan = plan info, ss_status = ''authorized'',
      ss_lastRenewal = now, ss_nextBilling = newExp\<rparr>"

definition put_node :: "string \<Rightarrow> user_node \<Rightarrow> world \<Rightarrow> world" where
  "put_node uid n w = w\<lparr>users := (users w)(uid \<mapsto> n)\<rparr>"

text \<open>
  Step 6 (lines 275 to 277 and \<^verbatim>\<open>sendActivationEmail\<close>, lines 286 to 317): the email is
  requested when the API key is configured; the function catches its own exceptions.
\<close>

definition sendActivationEmail :: "env \<Rightarrow> string \<Rightarrow> world \<Rightarrow> world" where
  "sendActivationEmail ev email w =
     (if truthy (FIREBASE_API_KEY ev) then w\<lparr>outbox := outbox w @ [email]\<rparr> else w)"

definition write_payment :: "env \<Rightarrow> string \<Rightarrow> grant \<Rightarrow> int \<Rightarrow> world \<Rightarrow> (error + unit) \<times> world" where
  "write_payment ev uid info now w =
     (if truthy (paymentId info)
      then if db_ok ev SetPayment
           then (Inr (), put_node uid
                   ((node_of w uid)\<lparr>payments :=
                      (payments (node_of w uid))(the (paymentId info) \<mapsto> history_entry info now)\<rparr>) w)
           else (Inl DatabaseError, w)
      else (Inr (), w))"

definition write_subscription :: "env \<Rightarrow> string \<Rightarrow> grant \<Rightarrow> int \<Rightarrow> int \<Rightarrow> world \<Rightarrow> (error + unit) \<times> world" where
  "write_subscription ev uid info now newExp w =
     (if truthy (preapprovalId info)
      then if db_ok ev SetSubscription
           then (Inr (), put_node uid
                   ((node_of w uid)\<lparr>subscription :=
                      Some (subscription_entry (the (preapprovalId info)) info now newExp)\<rparr>) w)
           else (Inl DatabaseError, w)
      else (Inr (), w))"

text \<open>
  The whole function. Each step that throws ends the call with the state written so far.
\<close>

definition activateLicense :: "env \<Rightarrow> int \<Rightarrow> int \<Rightarrow> string \<Rightarrow> grant \<Rightarrow> world \<Rightarrow> (error + unit) \<times> world" where
  "activateLicense ev now now' email info w =
     (case find_or_create ev email w of
        (Inl e, w1) \<Rightarrow> (Inl e, w1)
      | (Inr (uid, isNewUser), w1) \<Rightarrow>
          if \<not> db_ok ev ReadExpiration then (Inl DatabaseError, w1)
          else
            (case newExpDate (LocalTZA ev) now now' (ExpirationDate (node_of w1 uid)) (months info) of
               Inl e \<Rightarrow> (Inl e, w1)
             | Inr newExp \<Rightarrow>
                 (case (licenseType info, maxDevices info) of
                    (Val lt, Val md) \<Rightarrow>
                      if \<not> db_ok ev UpdateUser then (Inl DatabaseError, w1)
                      else
                        (let w2 = put_node uid
                                    (license_update email lt newExp md now isNewUser (node_of w1 uid)) w1
                         in case write_payment ev uid info now w2 of
                              (Inl e, w3) \<Rightarrow> (Inl e, w3)
                            | (Inr _, w3) \<Rightarrow>
                                (case write_subscription ev uid info now newExp w3 of
                                   (Inl e, w4) \<Rightarrow> (Inl e, w4)
                                 | (Inr _, w4) \<Rightarrow>
                                     (Inr (), if isNewUser then sendActivationEmail ev email w4 else w4)))
                  | _ \<Rightarrow> (Inl DatabaseError, w1))))"

subsection \<open>\<^verbatim>\<open>handlePayment\<close> (lines 95 to 132)\<close>

definition payment_grant :: "string \<Rightarrow> payment \<Rightarrow> string \<Rightarrow> string \<Rightarrow> grant" where
  "payment_grant pid pm pl du =
     \<lparr>licenseType = or_default (js_get DURATION_LICENSE du) ''Monthly'',
      months = or_default (js_get DURATION_MONTHS du) 1,
      maxDevices = or_default (js_get PLAN_MAX_DEVICES pl) 1,
      paymentId = Some pid,
      preapprovalId = None,
      plan = pl,
      duration = Some du,
      amount = p_transaction_amount pm,
      currency = p_currency_id pm,
      paymentType = ''onetime''\<rparr>"

definition handlePayment :: "env \<Rightarrow> int \<Rightarrow> int \<Rightarrow> string \<Rightarrow> world \<Rightarrow> (error + unit) \<times> world" where
  "handlePayment ev now now' pid w =
     (case payment_get ev pid of
        Inl e \<Rightarrow> (Inl e, w)
      | Inr pm \<Rightarrow>
          if p_status pm \<noteq> ''approved'' then (Inr (), w)
          else
            (case p_external_reference pm of
               RefNull \<Rightarrow> (Inl TypeError, w)
             | Ref e p d \<Rightarrow>
                 (let pl = or_else p ''individual'';
                      du = or_else d ''1m''
                  in if \<not> truthy e then (Inr (), w)
                     else activateLicense ev now now' (the e) (payment_grant pid pm pl du) w)))"

subsection \<open>\<^verbatim>\<open>handleSubscription\<close> (lines 135 to 165)\<close>

text \<open>
  Lines 151 and 152: \<^verbatim>\<open>presub.auto_recurring?.transaction_amount || 0\<close> and the plan
  inferred from it.
\<close>

definition recurring_amount :: "preapproval \<Rightarrow> real" where
  "recurring_amount ps =
     (case s_auto_recurring ps of
        None \<Rightarrow> 0
      | Some ar \<Rightarrow> (case ar_transaction_amount ar of None \<Rightarrow> 0 | Some a \<Rightarrow> a))"

definition inferred_plan :: "preapproval \<Rightarrow> string" where
  "inferred_plan ps = (if recurring_amount ps \<ge> 25 then ''profesional'' else ''individual'')"

definition subscription_grant :: "string \<Rightarrow> preapproval \<Rightarrow> grant" where
  "subscription_grant pre ps =
     \<lparr>licenseType = Val ''Monthly'',
      months = Val 1,
      maxDevices = js_get PLAN_MAX_DEVICES (inferred_plan ps),
      paymentId = None,
      preapprovalId = Some pre,
      plan = inferred_plan ps,
      duration = None,
      amount = Some (recurring_amount ps),
      currency = Some (or_else (case s_auto_recurring ps of None \<Rightarrow> None
                                 | Some ar \<Rightarrow> ar_currency_id ar) ''USD''),
      paymentType = ''subscription''\<rparr>"

definition handleSubscription :: "env \<Rightarrow> int \<Rightarrow> int \<Rightarrow> string \<Rightarrow> world \<Rightarrow> (error + unit) \<times> world" where
  "handleSubscription ev now now' pre w =
     (case preapproval_get ev pre of
        Inl e \<Rightarrow> (Inl e, w)
      | Inr ps \<Rightarrow>
          if s_status ps \<noteq> ''authorized'' then (Inr (), w)
          else if \<not> truthy (s_payer_email ps) then (Inr (), w)
          else activateLicense ev now now' (the (s_payer_email ps)) (subscription_grant pre ps) w)"

subsection \<open>\<^verbatim>\<open>handleSubscriptionRenewal\<close> (lines 168 to 191)\<close>

definition handleSubscriptionRenewal :: "env \<Rightarrow> int \<Rightarrow> int \<Rightarrow> string \<Rightarrow> world \<Rightarrow> (error + unit) \<times> world" where
  "handleSubscriptionRenewal ev now now' aid w =
     (case authorized_payment_get ev aid of
        Inl e \<Rightarrow> (Inl e, w)
      | Inr NotOk \<Rightarrow> (Inr (), w)
      | Inr (Ok preId st) \<Rightarrow>
          if st \<noteq> ''processed'' then (Inr (), w)
          else if truthy preId then handleSubscription ev now now' (the preId) w
          else (Inr (), w))"

subsection \<open>\<^verbatim>\<open>verifySignature\<close> (lines 320 to 344)\<close>

text \<open>\<^verbatim>\<open>s.split(c)\<close> with a one-character separator: never an empty list.\<close>

fun split_on :: "char \<Rightarrow> string \<Rightarrow> string list" where
  "split_on c [] = [[]]"
| "split_on c (x # xs) =
     (if x = c then [] # split_on c xs
      else (case split_on c xs of
              p # ps \<Rightarrow> (x # p) # ps
            | [] \<Rightarrow> [[x]]))"

text \<open>White space as \<^verbatim>\<open>trim\<close> and the class \<^verbatim>\<open>\s\<close> see it, among the code units below 256.\<close>

definition is_space :: "char \<Rightarrow> bool" where
  "is_space c = (c \<in> set [CHR 0x09, CHR 0x0A, CHR 0x0B, CHR 0x0C, CHR 0x0D, CHR 0x20, CHR 0xA0])"

definition trim :: "string \<Rightarrow> string" where
  "trim s = rev (dropWhile is_space (rev (dropWhile is_space s)))"

text \<open>
  One entry for \<^verbatim>\<open>Object.fromEntries\<close>: the first two elements of
  \<^verbatim>\<open>p.trim().split('=')\<close>; the value is \<^verbatim>\<open>undefined\<close> when there is no \<^verbatim>\<open>=\<close>.
\<close>

definition entry_of :: "string \<Rightarrow> string \<times> string option" where
  "entry_of p =
     (case split_on CHR ''='' (trim p) of
        k # v # _ \<Rightarrow> (k, Some v)
      | [k] \<Rightarrow> (k, None)
      | [] \<Rightarrow> ([], None))"

definition signature_parts :: "string \<Rightarrow> (string \<times> string option) list" where
  "signature_parts xSignature = map entry_of (split_on CHR '','' xSignature)"

text \<open>
  \<^verbatim>\<open>parts.k || ''\<close> for the two keys the function reads, \<^verbatim>\<open>ts\<close> and \<^verbatim>\<open>v1\<close>: a later
  entry with the same key replaces an earlier one.
\<close>

definition part :: "(string \<times> string option) list \<Rightarrow> string \<Rightarrow> string" where
  "part parts k = (case map_of (rev parts) k of Some v \<Rightarrow> or_else v [] | None \<Rightarrow> [])"

text \<open>\<^verbatim>\<open>digest('hex')\<close>: two lower-case digits for each byte.\<close>

definition hex_digit :: "nat \<Rightarrow> char" where
  "hex_digit n = ''0123456789abcdef'' ! n"

definition to_hex :: "string \<Rightarrow> string" where
  "to_hex bs = concat (map (\<lambda>b. [hex_digit (of_char b div 16), hex_digit (of_char b mod 16)]) bs)"

text \<open>
  \<^verbatim>\<open>Buffer.from(s, 'hex')\<close>: digits of either case, two for each byte; decoding stops at
  the first pair that is not two hexadecimal digits, and a last digit without a partner
  is dropped.
\<close>

definition hex_value :: "char \<Rightarrow> nat option" where
  "hex_value c =
     (let n = (of_char c :: nat)
      in if 48 \<le> n \<and> n \<le> 57 then Some (n - 48)
         else if 97 \<le> n \<and> n \<le> 102 then Some (n - 87)
         else if 65 \<le> n \<and> n \<le> 70 then Some (n - 55)
         else None)"

fun from_hex :: "string \<Rightarrow> string" where
  "from_hex (a # b # r) =
     (case (hex_value a, hex_value b) of
        (Some x, Some y) \<Rightarrow> char_of (16 * x + y) # from_hex r
      | _ \<Rightarrow> [])"
| "from_hex _ = []"

text \<open>\<^verbatim>\<open>crypto.timingSafeEqual\<close> throws when the two buffers differ in length.\<close>

definition timingSafeEqual :: "string \<Rightarrow> string \<Rightarrow> error + bool" where
  "timingSafeEqual a b = (if length a \<noteq> length b then Inl RangeError else Inr (a = b))"

record request =
  r_method :: string
  x_signature :: "string option"
  x_request_id :: "string option"
  body_type :: "string option"
  body_data_id :: "string option"
  query_topic :: "string option"
  query_id :: "string option"

definition signed_manifest :: "string \<Rightarrow> string \<Rightarrow> string \<Rightarrow> string" where
  "signed_manifest eid rid ts = ''id:'' @ eid @ '';request-id:'' @ rid @ '';ts:'' @ ts @ '';''"

definition verifySignature :: "(string \<Rightarrow> string \<Rightarrow> string) \<Rightarrow> request \<Rightarrow> string \<Rightarrow> bool" where
  "verifySignature hm req secret =
     (let xSignature = or_else (x_signature req) [];
          xRequestId = or_else (x_request_id req) []
      in if xSignature = [] then True
         else
           (let parts = signature_parts xSignature;
                ts = part parts ''ts'';
                hash = part parts ''v1'';
                eid = or_else (or_opt (body_data_id req) (query_id req)) [];
                manifest = signed_manifest eid xRequestId ts;
                expected = to_hex (hm secret manifest)
            in case timingSafeEqual (from_hex hash) (from_hex expected) of
                 Inl _ \<Rightarrow> False
               | Inr b \<Rightarrow> b))"

subsection \<open>\<^verbatim>\<open>handler\<close> (lines 53 to 92)\<close>

record response =
  status :: nat
  body :: string

text \<open>
  Lines 70 to 72: the topic and the id come from the JSON body (\<^verbatim>\<open>type\<close>, \<^verbatim>\<open>data.id\<close>) or,
  for the legacy format, from the query string (\<^verbatim>\<open>topic\<close>, \<^verbatim>\<open>id\<close>).
\<close>

definition event_topic :: "request \<Rightarrow> string" where
  "event_topic req = or_else (or_opt (body_type req) (query_topic req)) []"

definition event_id :: "request \<Rightarrow> string" where
  "event_id req = or_else (or_opt (body_data_id req) (query_id req)) []"

text \<open>
  Lines 61 to 66: the signature is checked only when a secret is configured, and a
  request that fails the check is dropped.
\<close>

definition signature_rejected :: "env \<Rightarrow> request \<Rightarrow> bool" where
  "signature_rejected ev req =
     (truthy (MP_WEBHOOK_SECRET ev)
      \<and> \<not> verifySignature (hmac_sha256 ev) req (the (MP_WEBHOOK_SECRET ev)))"

text \<open>The \<^verbatim>\<open>try\<close> block, lines 60 to 87.\<close>

definition process_event :: "env \<Rightarrow> int \<Rightarrow> int \<Rightarrow> request \<Rightarrow> world \<Rightarrow> (error + unit) \<times> world" where
  "process_event ev now now' req w =
     (if signature_rejected ev req then (Inr (), w)
      else
        (let topic = event_topic req;
             eid = event_id req
         in if topic = [] \<or> eid = [] then (Inr (), w)
            else if topic = ''payment'' then handlePayment ev now now' eid w
            else if topic = ''preapproval'' \<or> topic = ''subscription_preapproval''
              then handleSubscription ev now now' eid w
            else if topic = ''subscription_authorized_payment''
              then handleSubscriptionRenewal ev now now' eid w
            else (Inr (), w)))"

text \<open>
  The handler: the response is sent first (line 55), then the event is processed inside
  \<^verbatim>\<open>try\<close>/\<^verbatim>\<open>catch\<close>, and the \<^verbatim>\<open>catch\<close> only logs. \<open>Inl\<close> in the result would be an
  exception leaving the handler.
\<close>

definition webhook_handler :: "env \<Rightarrow> int \<Rightarrow> int \<Rightarrow> request \<Rightarrow> world \<Rightarrow> (error + response) \<times> world" where
  "webhook_handler ev now now' req w =
     (let res = \<lparr>status = 200, body = []\<rparr>
      in if r_method req \<noteq> ''POST'' then (Inr res, w)
         else (case process_event ev now now' req w of (_, w') \<Rightarrow> (Inr res, w')))"

section \<open>Checkout creation: \<^verbatim>\<open>src/api/create-preference.js\<close> and \<^verbatim>\<open>src/unnamed/part_000\<close>\<close>

text \<open>
  The catalog of \<^verbatim>\<open>create-preference.js\<close>, lines 17 to 30, without the display titles
  (they contain characters outside ASCII and no property below depends on them).
\<close>

record catalog_item =
  price :: int
  item_months :: int

definition CATALOG :: "(string \<times> (string \<times> catalog_item) list) list" where
  "CATALOG =
     [(''individual'',
        [(''1m'', \<lparr>price = 15, item_months = 1\<rparr>), (''3m'', \<lparr>price = 40, item_months = 3\<rparr>),
         (''6m'', \<lparr>price = 75, item_months = 6\<rparr>), (''12m'', \<lparr>price = 149, item_months = 12\<rparr>)]),
      (''profesional'',
        [(''1m'', \<lparr>price = 25, item_months = 1\<rparr>), (''3m'', \<lparr>price = 67, item_months = 3\<rparr>),
         (''6m'', \<lparr>price = 125, item_months = 6\<rparr>), (''12m'', \<lparr>price = 249, item_months = 12\<rparr>)])]"

definition SUBSCRIPTION_PRICES :: "(string \<times> int) list" where
  "SUBSCRIPTION_PRICES = [(''individual'', 15), (''profesional'', 25)]"

text \<open>
  The test \<^verbatim>\<open>/^[^\s@]+@[^\s@]+\.[^\s@]+$/\<close>: a non-empty run of characters that are
  neither white space nor \<^verbatim>\<open>@\<close>, then \<^verbatim>\<open>@\<close>, then only such characters to the end,
  among them a dot that is neither the first nor the last of them.
\<close>

definition plain :: "char \<Rightarrow> bool" where
  "plain c = (\<not> is_space c \<and> c \<noteq> CHR ''@'')"

definition emailRx_test :: "string \<Rightarrow> bool" where
  "emailRx_test s =
     (takeWhile plain s \<noteq> [] \<and>
      (case dropWhile plain s of
         [] \<Rightarrow> False
       | c # domain \<Rightarrow>
           c = CHR ''@'' \<and> list_all plain domain \<and>
           list_ex (\<lambda>i. domain ! i = CHR ''.'') [1..<length domain - 1]))"

record checkout_request =
  c_method :: string
  c_email :: "string option"
  c_plan :: "string option"
  c_duration :: "string option"

text \<open>
  What is sent to the processor, as far as it depends on the request (the redirect and
  notification URLs come from the environment alone, and the reference of a
  subscription carries the constant marker \<^verbatim>\<open>t: 'subscription'\<close> in place of a
  duration). A property whose value is \<^verbatim>\<open>undefined\<close> or a function is left out by
  \<^verbatim>\<open>JSON.stringify\<close>: \<open>None\<close>.
\<close>

record preference_body =
  item_id :: string
  unit_price :: "int option"
  currency_id :: string
  payer_email :: string
  external_reference :: reference

record preference_result =
  init_point :: "string option"
  sandbox_init_point :: "string option"

record subscription_body =
  sb_payer_email :: string
  sb_external_reference :: reference
  sb_transaction_amount :: "int option"
  sb_currency_id :: string

text \<open>
  The environment of the two checkout functions. \<open>builtin_member p d\<close> says whether
  property \<open>d\<close> of the built-in object \<^verbatim>\<open>Object.prototype[p]\<close> is truthy: it is needed
  for \<^verbatim>\<open>CATALOG[plan]?.[duration]\<close> when \<open>plan\<close> names an inherited property, and
  is fixed by the JavaScript runtime.
\<close>

record checkout_env =
  MP_CURRENCY :: "string option"
  preference_create :: "preference_body \<Rightarrow> error + preference_result"
  subscription_create :: "subscription_body \<Rightarrow> error + preference_result"
  builtin_member :: "string \<Rightarrow> string \<Rightarrow> bool"

datatype message =
    MethodNotAllowed
  | FieldsRequired
  | InvalidEmail
  | InvalidCombination string string
  | InvalidPlan string
  | CouldNotCreate

datatype payload = NoBody | ErrorBody message | Links "string option" "string option"

record checkout_response =
  c_status :: nat
  c_body :: payload

text \<open>\<^verbatim>\<open>CATALOG[plan]?.[duration]\<close>, line 50.\<close>

definition catalog_lookup :: "checkout_env \<Rightarrow> string \<Rightarrow> string \<Rightarrow> catalog_item js" where
  "catalog_lookup cev pl du =
     (case js_get CATALOG pl of
        Undefined \<Rightarrow> Undefined
      | Val durations \<Rightarrow> js_get durations du
      | Builtin p \<Rightarrow> if builtin_member cev p du then Builtin (p @ ''.'' @ du) else Undefined)"

definition js_number :: "int js \<Rightarrow> int option" where
  "js_number v = (case v of Val n \<Rightarrow> Some n | _ \<Rightarrow> None)"

text \<open>
  \<^verbatim>\<open>handler\<close> of \<^verbatim>\<open>create-preference.js\<close>, lines 33 to 104. The second component of the
  result lists the requests sent to the processor.
\<close>

definition create_preference_handler ::
    "checkout_env \<Rightarrow> checkout_request \<Rightarrow> checkout_response \<times> preference_body list" where
  "create_preference_handler cev req =
     (if c_method req = ''OPTIONS'' then (\<lparr>c_status = 200, c_body = NoBody\<rparr>, [])
      else if c_method req \<noteq> ''POST''
        then (\<lparr>c_status = 405, c_body = ErrorBody MethodNotAllowed\<rparr>, [])
      else if \<not> truthy (c_email req) \<or> \<not> truthy (c_plan req) \<or> \<not> truthy (c_duration req)
        then (\<lparr>c_status = 400, c_body = ErrorBody FieldsRequired\<rparr>, [])
      else if \<not> emailRx_test (the (c_email req))
        then (\<lparr>c_status = 400, c_body = ErrorBody InvalidEmail\<rparr>, [])
      else
        (let email = the (c_email req); pl = the (c_plan req); du = the (c_duration req)
         in case catalog_lookup cev pl du of
              Undefined \<Rightarrow>
                (\<lparr>c_status = 400, c_body = ErrorBody (InvalidCombination pl du)\<rparr>, [])
            | item \<Rightarrow>
                (let b = \<lparr>item_id = ''bims-'' @ pl @ ''-'' @ du,
                          unit_price = (case item of Val i \<Rightarrow> Some (price i) | _ \<Rightarrow> None),
                          currency_id = or_else (MP_CURRENCY cev) ''USD'',
                          payer_email = email,
                          external_reference = Ref (Some email) (Some pl) (Some du)\<rparr>
                 in case preference_create cev b of
                      Inl _ \<Rightarrow> (\<lparr>c_status = 500, c_body = ErrorBody CouldNotCreate\<rparr>, [b])
                    | Inr pref \<Rightarrow>
                        (\<lparr>c_status = 200,
                          c_body = Links (init_point pref) (sandbox_init_point pref)\<rparr>, [b]))))"

text \<open>\<^verbatim>\<open>handler\<close> of \<^verbatim>\<open>part_000\<close> (subscription checkout), lines 27 to 88.\<close>

definition create_subscription_handler ::
    "checkout_env \<Rightarrow> checkout_request \<Rightarrow> checkout_response \<times> subscription_body list" where
  "create_subscription_handler cev req =
     (if c_method req = ''OPTIONS'' then (\<lparr>c_status = 200, c_body = NoBody\<rparr>, [])
      else if c_method req \<noteq> ''POST''
        then (\<lparr>c_status = 405, c_body = ErrorBody MethodNotAllowed\<rparr>, [])
      else if \<not> truthy (c_email req) \<or> \<not> truthy (c_plan req)
        then (\<lparr>c_status = 400, c_body = ErrorBody FieldsRequired\<rparr>, [])
      else if \<not> emailRx_test (the (c_email req))
        then (\<lparr>c_status = 400, c_body = ErrorBody InvalidEmail\<rparr>, [])
      else
        (let email = the (c_email req); pl = the (c_plan req)
         in case js_get SUBSCRIPTION_PRICES pl of
              Undefined \<Rightarrow> (\<lparr>c_status = 400, c_body = ErrorBody (InvalidPlan pl)\<rparr>, [])
            | pr \<Rightarrow>
                (let b = \<lparr>sb_payer_email = email,
                          sb_external_reference = Ref (Some email) (Some pl) None,
                          sb_transaction_amount = js_number pr,
                          sb_currency_id = or_else (MP_CURRENCY cev) ''USD''\<rparr>
                 in case subscription_create cev b of
                      Inl _ \<Rightarrow> (\<lparr>c_status = 500, c_body = ErrorBody CouldNotCreate\<rparr>, [b])
                    | Inr r \<Rightarrow> (\<lparr>c_status = 200, c_body = Links (init_point r) None\<rparr>, [b]))))"

section \<open>A test environment\<close>

text \<open>
  Two hosts: one that runs in UTC, and one in New York, with the offsets that are in
  force there from November 2026 to March 2028 (five hours behind UTC, and four from
  2027-03-14T07:00:00Z to 2027-11-07T06:00:00Z; a local time that the change to
  daylight saving time skips, or that the change back repeats, has the offset from
  before the change, as ECMA-262 prescribes).
\<close>

definition utc_host :: time_zone where
  "utc_host = (\<lambda>t isUTC. 0)"

definition new_york :: time_zone where
  "new_york =
     (\<lambda>t isUTC.
        if isUTC then (if 1805007600000 \<le> t \<and> t < 1825567200000 then - 14400000 else - 18000000)
        else (if 1804993200000 \<le> t \<and> t < 1825552800000 then - 14400000 else - 18000000))"

text \<open>
  Concrete payments, subscriptions and an environment to run the functions on. The
  clock readings are 2026-11-02T10:00:00Z and one and two seconds later.
\<close>

definition demo_payment :: payment where
  "demo_payment =
     \<lparr>p_status = ''approved'',
      p_external_reference = Ref (Some ''a@b.com'') (Some ''individual'') (Some ''3m''),
      p_transaction_amount = Some 40, p_currency_id = Some ''USD''\<rparr>"

definition demo_preapproval :: preapproval where
  "demo_preapproval =
     \<lparr>s_status = ''authorized'', s_payer_email = Some ''a@b.com'',
      s_auto_recurring = Some \<lparr>ar_transaction_amount = Some 25, ar_currency_id = Some ''USD''\<rparr>\<rparr>"

definition demo_env :: env where
  "demo_env =
     \<lparr>MP_WEBHOOK_SECRET = None, FIREBASE_API_KEY = Some ''key'', LocalTZA = utc_host,
      payment_get = (\<lambda>i. if i = ''123'' then Inr demo_payment
                         else if i = ''124'' then Inr (demo_payment\<lparr>p_status := ''pending''\<rparr>)
                         else if i = ''125'' then Inr (demo_payment\<lparr>p_external_reference :=
                                 Ref (Some ''a@b.com'') (Some ''individual'') (Some ''constructor'')\<rparr>)
                         else Inl UpstreamError),
      preapproval_get = (\<lambda>i. if i = ''sub1'' then Inr demo_preapproval
                             else if i = ''sub2'' then Inr (demo_preapproval\<lparr>s_status := ''paused''\<rparr>)
                             else Inl UpstreamError),
      authorized_payment_get = (\<lambda>i. if i = ''ap1'' then Inr (Ok (Some ''sub1'') ''processed'')
                                    else if i = ''ap2'' then Inr (Ok (Some ''sub1'') ''scheduled'')
                                    else Inr NotOk),
      createUser = (\<lambda>e. Inr (''uid-'' @ e)),
      db_ok = (\<lambda>_. True),
      hmac_sha256 = (\<lambda>k m. [])\<rparr>"

text \<open>The same environment on the New York host.\<close>

definition new_york_env :: env where
  "new_york_env = demo_env\<lparr>LocalTZA := new_york\<rparr>"

definition demo_world :: world where
  "demo_world = \<lparr>accounts = Map.empty, users = Map.empty, outbox = []\<rparr>"

definition t0 :: int where
  "t0 = 1793613600000"

definition payment_event :: "string \<Rightarrow> request" where
  "payment_event i =
     \<lparr>r_method = ''POST'', x_signature = None, x_request_id = None,
      body_type = Some ''payment'', body_data_id = Some i, query_topic = None, query_id = None\<rparr>"

text \<open>
  A world with one account whose license runs until 2026-12-15T00:00:00Z, and the same
  account with a license that ran out on 2026-10-01T00:00:00Z.
\<close>

definition member_world :: world where
  "member_world =
     \<lparr>accounts = [''a@b.com'' \<mapsto> ''u1''],
      users = [''u1'' \<mapsto> empty_node\<lparr>Email := Some ''a@b.com'', IsActive := Some True,
                 LicenseType := Some ''Monthly'', ExpirationDate := Some 1797292800000,
                 MaxDevices := Some 1, UpdatedAt := Some 1790000000000,
                 CreatedAt := Some 1700000000000, ValidationCount := Some 7,
                 activations := [''device-1'']\<rparr>],
      outbox = []\<rparr>"

definition lapsed_world :: world where
  "lapsed_world =
     \<lparr>accounts = [''a@b.com'' \<mapsto> ''u1''],
      users = [''u1'' \<mapsto> empty_node\<lparr>Email := Some ''a@b.com'', IsActive := Some True,
                 LicenseType := Some ''Monthly'', ExpirationDate := Some 1790812800000,
                 MaxDevices := Some 1, UpdatedAt := Some 1788000000000,
                 CreatedAt := Some 1700000000000, ValidationCount := Some 7,
                 activations := [''device-1'']\<rparr>],
      outbox = []\<rparr>"

text \<open>
  The same approved payment, id 123, delivered twice to an empty world: at \<open>t0\<close> and,
  as a retry, one second later.
\<close>

definition after_first :: world where
  "after_first = snd (handlePayment demo_env t0 t0 ''123'' demo_world)"

definition after_second :: world where
  "after_second = snd (handlePayment demo_env (t0 + 1000) (t0 + 1000) ''123'' after_first)"

text \<open>The same two deliveries on the New York host.\<close>

definition new_york_first :: world where
  "new_york_first = snd (handlePayment new_york_env t0 t0 ''123'' demo_world)"

definition new_york_second :: world where
  "new_york_second
     = snd (handlePayment new_york_env (t0 + 1000) (t0 + 1000) ''123'' new_york_first)"

text \<open>
  A signed notification. \<open>signature_header ts v1\<close> is the \<^verbatim>\<open>x-signature\<close> header in
  the processor's format. A value is \<open>unbroken\<close> when it survives the parsing of the
  header as it is: it contains neither the separator \<^verbatim>\<open>,\<close> nor \<^verbatim>\<open>=\<close> and does not
  end in white space.
\<close>

definition signature_header :: "string \<Rightarrow> string \<Rightarrow> string" where
  "signature_header ts v1 = ''ts='' @ ts @ '',v1='' @ v1"

definition unbroken :: "string \<Rightarrow> bool" where
  "unbroken s =
     (CHR '','' \<notin> set s \<and> CHR ''='' \<notin> set s \<and> (s = [] \<or> \<not> is_space (last s)))"

text \<open>
  Three values of HMAC-SHA256 under the key \<^verbatim>\<open>S\<close>, as the reference implementation
  computes them: of the manifests \<^verbatim>\<open>id:123;request-id:abc;ts:999;\<close> (hexadecimal
  5c2604b8fc66d9ced1eef8f7334312460e838418c921eab4b2371f99f43bacf1),
  \<^verbatim>\<open>id:123;request-id:abc;ts:9,9;\<close> (cbdf158e...2ba879c3) and
  \<^verbatim>\<open>id:123;request-id:abc;ts:9;\<close> (048c9118...ab9efc32). \<open>test_hmac\<close> holds these
  three values of the function.
\<close>

definition test_digest :: string where
  "test_digest =
     [CHR 0x5C, CHR 0x26, CHR 0x04, CHR 0xB8, CHR 0xFC, CHR 0x66, CHR 0xD9, CHR 0xCE,
      CHR 0xD1, CHR 0xEE, CHR 0xF8, CHR 0xF7, CHR 0x33, CHR 0x43, CHR 0x12, CHR 0x46,
      CHR 0x0E, CHR 0x83, CHR 0x84, CHR 0x18, CHR 0xC9, CHR 0x21, CHR 0xEA, CHR 0xB4,
      CHR 0xB2, CHR 0x37, CHR 0x1F, CHR 0x99, CHR 0xF4, CHR 0x3B, CHR 0xAC, CHR 0xF1]"

definition comma_digest :: string where
  "comma_digest =
     [CHR 0xCB, CHR 0xDF, CHR 0x15, CHR 0x8E, CHR 0x77, CHR 0x80, CHR 0xEA, CHR 0x6E,
      CHR 0xAE, CHR 0xAC, CHR 0xC2, CHR 0x42, CHR 0x75, CHR 0x61, CHR 0x5E, CHR 0xEC,
      CHR 0x09, CHR 0xAB, CHR 0x3B, CHR 0x5C, CHR 0x14, CHR 0x3B, CHR 0xB3, CHR 0x2A,
      CHR 0xEA, CHR 0x07, CHR 0xB8, CHR 0x71, CHR 0x2B, CHR 0xA8, CHR 0x79, CHR 0xC3]"

definition short_digest :: string where
  "short_digest =
     [CHR 0x04, CHR 0x8C, CHR 0x91, CHR 0x18, CHR 0xBB, CHR 0x62, CHR 0x6B, CHR 0xA7,
      CHR 0xAD, CHR 0x35, CHR 0x66, CHR 0xA0, CHR 0x44, CHR 0x64, CHR 0x89, CHR 0x78,
      CHR 0x83, CHR 0xE3, CHR 0x4B, CHR 0xD0, CHR 0x30, CHR 0xD6, CHR 0x72, CHR 0x6A,
      CHR 0x91, CHR 0xAE, CHR 0x72, CHR 0xC7, CHR 0xAB, CHR 0x9E, CHR 0xFC, CHR 0x32]"

definition test_hmac :: "string \<Rightarrow> string \<Rightarrow> string" where
  "test_hmac k m =
     (if k \<noteq> ''S'' then []
      else if m = ''id:123;request-id:abc;ts:999;'' then test_digest
      else if m = ''id:123;request-id:abc;ts:9,9;'' then comma_digest
      else if m = ''id:123;request-id:abc;ts:9;'' then short_digest
      else [])"

definition signed_event :: "string \<Rightarrow> request" where
  "signed_event v1 =
     \<lparr>r_method = ''POST'', x_signature = Some (signature_header ''999'' v1),
      x_request_id = Some ''abc'', body_type = Some ''payment'', body_data_id = Some ''123'',
      query_topic = None, query_id = None\<rparr>"

text \<open>The same notification with the timestamp \<^verbatim>\<open>9,9\<close>, signed for that timestamp.\<close>

definition comma_event :: request where
  "comma_event =
     \<lparr>r_method = ''POST'',
      x_signature = Some (signature_header ''9,9''
        ''cbdf158e7780ea6eaeacc24275615eec09ab3b5c143bb32aea07b8712ba879c3''),
      x_request_id = Some ''abc'', body_type = Some ''payment'', body_data_id = Some ''123'',
      query_topic = None, query_id = None\<rparr>"

text \<open>A checkout environment whose processor accepts every request.\<close>

definition demo_checkout_env :: checkout_env where
  "demo_checkout_env =
     \<lparr>MP_CURRENCY = None,
      preference_create = (\<lambda>b. Inr \<lparr>init_point = Some ''https://pay/1'',
                                      sandbox_init_point = Some ''https://sandbox/1''\<rparr>),
      subscription_create = (\<lambda>b. Inr \<lparr>init_point = Some ''https://pay/2'',
                                        sandbox_init_point = None\<rparr>),
      builtin_member = (\<lambda>p d. False)\<rparr>"

definition checkout :: "string \<Rightarrow> string \<Rightarrow> string \<Rightarrow> checkout_request" where
  "checkout e p d =
     \<lparr>c_method = ''POST'', c_email = Some e, c_plan = Some p, c_duration = Some d\<rparr>"


section \<open>Properties\<close>

subsection \<open>The calendar\<close>

lemma div_bounds: "0 < (b::int) \<Longrightarrow> b * (a div b) \<le> a \<and> a < b * (a div b) + b"
proof -
  assume b: "0 < b"
  have "a = b * (a div b) + a mod b" by simp
  moreover have "0 \<le> a mod b \<and> a mod b < b" using b by simp
  ultimately show ?thesis by linarith
qed

lemma DayFromYear_estimate:
  "400 * DayFromYear y \<le> 146097 * y - 287810501 \<and>
   146097 * y - 287811596 \<le> 400 * DayFromYear y"
proof -
  define a where "a = (y - 1969) div 4"
  define b where "b = (y - 1901) div 100"
  define c where "c = (y - 1601) div 400"
  have A: "4 * a \<le> y - 1969" "y - 1969 < 4 * a + 4"
    using div_bounds [of 4 "y - 1969"] by (simp_all add: a_def)
  have B: "100 * b \<le> y - 1901" "y - 1901 < 100 * b + 100"
    using div_bounds [of 100 "y - 1901"] by (simp_all add: b_def)
  have C: "400 * c \<le> y - 1601" "y - 1601 < 400 * c + 400"
    using div_bounds [of 400 "y - 1601"] by (simp_all add: c_def)
  have "DayFromYear y = 365 * y - 719050 + a - b + c"
    by (simp add: DayFromYear_def a_def b_def c_def)
  with A B C show ?thesis by linarith
qed

lemma YearFromDay_bounds:
  "DayFromYear (YearFromDay d) \<le> d \<and> d < DayFromYear (YearFromDay d + 1)"
proof -
  define q where "q = (400 * d) div 146097"
  have q: "146097 * q \<le> 400 * d" "400 * d < 146097 * q + 146097"
    using div_bounds [of 146097 "400 * d"] by (simp_all add: q_def)
  define y2 where "y2 = 1972 + q"
  define y0 where "y0 = 1969 + q"
  have "146097 * y2 - 287811596 \<le> 400 * DayFromYear y2"
    using DayFromYear_estimate [of y2] by simp
  then have "d < DayFromYear y2"
    using q y2_def by linarith
  then have up: "d < DayFromYear (1972 + q)"
    by (simp add: y2_def)
  have "400 * DayFromYear y0 \<le> 146097 * y0 - 287810501"
    using DayFromYear_estimate [of y0] by simp
  then have "DayFromYear y0 \<le> d"
    using q y0_def by linarith
  then have lo: "DayFromYear (1969 + q) \<le> d"
    by (simp add: y0_def)
  show ?thesis
    using up lo unfolding YearFromDay_def q_def [symmetric] Let_def
    by simp
qed

lemma div_succ:
  fixes x n :: int
  assumes "0 < n"
  shows "(x + 1) div n = x div n + (if (x + 1) mod n = 0 then 1 else 0)"
proof -
  define q where "q = x div n"
  define r where "r = x mod n"
  have x: "x = n * q + r" and r: "0 \<le> r" "r < n"
    using assms by (simp_all add: q_def r_def)
  show ?thesis
  proof (cases "r + 1 = n")
    case True
    then have e: "x + 1 = n * (q + 1) + 0" using x by (simp add: algebra_simps)
    have "(x + 1) div n = q + 1" using assms by (intro int_div_pos_eq [OF e]) simp_all
    moreover have "(x + 1) mod n = 0" using assms by (intro int_mod_pos_eq [OF e]) simp_all
    ultimately show ?thesis by (simp add: q_def)
  next
    case False
    then have e: "x + 1 = n * q + (r + 1)" and r1: "0 \<le> r + 1" "r + 1 < n"
      using x r by simp_all
    have "(x + 1) div n = q" by (rule int_div_pos_eq [OF e r1])
    moreover have "(x + 1) mod n = r + 1" by (rule int_mod_pos_eq [OF e r1])
    ultimately show ?thesis using r by (simp add: q_def)
  qed
qed

lemma mod_shift: "(y - n * k) mod n = y mod n" for y :: int
proof -
  have "y - n * k = y + n * (- k)" by simp
  then show ?thesis by (simp only: mod_mult_self2)
qed

lemma step4: "(y - 1968) div 4 = (y - 1969) div 4 + (if y mod 4 = 0 then 1 else 0)" for y :: int
  using div_succ [of 4 "y - 1969"] mod_shift [of y 4 492] by simp

lemma step100: "(y - 1900) div 100 = (y - 1901) div 100 + (if y mod 100 = 0 then 1 else 0)" for y :: int
  using div_succ [of 100 "y - 1901"] mod_shift [of y 100 19] by simp

lemma step400: "(y - 1600) div 400 = (y - 1601) div 400 + (if y mod 400 = 0 then 1 else 0)" for y :: int
  using div_succ [of 400 "y - 1601"] mod_shift [of y 400 4] by simp

lemma leap_nesting: "y mod 400 = 0 \<Longrightarrow> y mod 100 = 0" "y mod 100 = 0 \<Longrightarrow> y mod 4 = 0" for y :: int
proof -
  show "y mod 400 = 0 \<Longrightarrow> y mod 100 = 0"
    using mod_mod_cancel [of 100 400 y] by simp
  show "y mod 100 = 0 \<Longrightarrow> y mod 4 = 0"
    using mod_mod_cancel [of 4 100 y] by simp
qed

lemma DayFromYear_step: "DayFromYear (y + 1) = DayFromYear y + DaysInYear y"
  using leap_nesting [of y]
  by (auto simp: DayFromYear_def DaysInYear_def step4 step100 step400)

lemma DaysInYear_cases: "DaysInYear y = 365 \<or> DaysInYear y = 366"
  by (simp add: DaysInYear_def)


lemma DayFromYear_grows: "DayFromYear y + 365 * int n \<le> DayFromYear (y + int n)"
proof (induction n)
  case 0
  then show ?case by simp
next
  case (Suc n)
  have e: "y + int (Suc n) = y + int n + 1" by simp
  have "DayFromYear (y + int (Suc n)) = DayFromYear (y + int n) + DaysInYear (y + int n)"
    unfolding e by (rule DayFromYear_step)
  with Suc DaysInYear_cases [of "y + int n"] show ?case by auto
qed

lemma DayFromYear_mono: "y \<le> y' \<Longrightarrow> DayFromYear y \<le> DayFromYear y'"
  using DayFromYear_grows [of y "nat (y' - y)"] by simp

lemma YearFromDay_unique:
  assumes "DayFromYear y \<le> d" and "d < DayFromYear (y + 1)"
  shows "YearFromDay d = y"
proof (rule ccontr)
  assume ne: "YearFromDay d \<noteq> y"
  have b: "DayFromYear (YearFromDay d) \<le> d" "d < DayFromYear (YearFromDay d + 1)"
    using YearFromDay_bounds [of d] by simp_all
  show False
  proof (cases "YearFromDay d < y")
    case True
    then have "DayFromYear (YearFromDay d + 1) \<le> DayFromYear y"
      by (intro DayFromYear_mono) simp
    with b assms show False by linarith
  next
    case False
    with ne have "DayFromYear (y + 1) \<le> DayFromYear (YearFromDay d)"
      by (intro DayFromYear_mono) simp
    with b assms show False by linarith
  qed
qed

lemma DayWithinYear_bounds:
  "0 \<le> DayWithinYear t \<and> DayWithinYear t < DaysInYear (YearFromTime t)"
  using YearFromDay_bounds [of "Day t"] DayFromYear_step [of "YearFromDay (Day t)"]
  by (simp add: DayWithinYear_def YearFromTime_def)

lemma MonthFromTime_range: "0 \<le> MonthFromTime t \<and> MonthFromTime t \<le> 11"
  by (simp add: MonthFromTime_def Let_def)

text \<open>Year, month and day of month determine the day.\<close>

lemma MakeDay_inverse:
  "MakeDay (YearFromTime t) (MonthFromTime t) (DateFromTime t) = Day t"
proof -
  have m: "MonthFromTime t div 12 = 0" "MonthFromTime t mod 12 = MonthFromTime t"
    using MonthFromTime_range [of t] by simp_all
  show ?thesis
    by (simp add: MakeDay_def m DateFromTime_def DayWithinYear_def InLeapYear_def Let_def)
qed

lemma Day_MakeDate:
  assumes "0 \<le> tod" and "tod < msPerDay"
  shows "Day (MakeDate d tod) = d" and "TimeWithinDay (MakeDate d tod) = tod"
proof -
  have e: "MakeDate d tod = msPerDay * d + tod" by (simp add: MakeDate_def)
  show "Day (MakeDate d tod) = d"
    unfolding Day_def by (rule int_div_pos_eq [OF e assms])
  show "TimeWithinDay (MakeDate d tod) = tod"
    unfolding TimeWithinDay_def by (rule int_mod_pos_eq [OF e assms])
qed

lemma TimeWithinDay_range: "0 \<le> TimeWithinDay t \<and> TimeWithinDay t < msPerDay"
  by (simp add: TimeWithinDay_def msPerDay_def)

lemma MakeDate_inverse: "MakeDate (Day t) (TimeWithinDay t) = t"
  by (simp add: MakeDate_def Day_def TimeWithinDay_def)

lemma month_cases:
  "0 \<le> (m::int) \<Longrightarrow> m \<le> 11 \<Longrightarrow>
     m = 0 \<or> m = 1 \<or> m = 2 \<or> m = 3 \<or> m = 4 \<or> m = 5 \<or> m = 6 \<or> m = 7 \<or> m = 8 \<or> m = 9 \<or> m = 10 \<or> m = 11"
  by arith

text \<open>The length of month k of year y (k counted from January of y, any integer).\<close>

lemma MakeDay_month_step:
  "MakeDay y (k + 1) d - MakeDay y k d \<in> {28, 29, 30, 31}"
proof -
  define q where "q = k div 12"
  define r where "r = k mod 12"
  have k: "k = 12 * q + r" and r: "0 \<le> r" "r \<le> 11"
    by (simp_all add: q_def r_def)
  show ?thesis
  proof (cases "r = 11")
    case True
    have e: "k + 1 = 12 * (q + 1) + 0" using k True by simp
    have "(k + 1) div 12 = q + 1" by (rule int_div_pos_eq [OF e]) simp_all
    moreover have "(k + 1) mod 12 = 0" by (rule int_mod_pos_eq [OF e]) simp_all
    ultimately show ?thesis
      using True DayFromYear_step [of "y + q"] DaysInYear_cases [of "y + q"]
      by (auto simp: MakeDay_def Let_def month_start_def q_def [symmetric] r_def [symmetric]
            add.assoc)
  next
    case False
    then have e: "k + 1 = 12 * q + (r + 1)" and r1: "0 \<le> r + 1" "r + 1 < 12"
      using k r by simp_all
    have "(k + 1) div 12 = q" by (rule int_div_pos_eq [OF e r1])
    moreover have "(k + 1) mod 12 = r + 1" by (rule int_mod_pos_eq [OF e r1])
    ultimately show ?thesis
      using month_cases [OF r] False
      by (auto simp: MakeDay_def Let_def month_start_def q_def [symmetric] r_def [symmetric])
  qed
qed

lemma MakeDay_months_later:
  "MakeDay y k d + 28 * int n \<le> MakeDay y (k + int n) d \<and>
   MakeDay y (k + int n) d \<le> MakeDay y k d + 31 * int n"
proof (induction n)
  case 0
  then show ?case by simp
next
  case (Suc n)
  have e: "k + int (Suc n) = k + int n + 1" by simp
  have "MakeDay y (k + int (Suc n)) d - MakeDay y (k + int n) d \<in> {28, 29, 30, 31}"
    unfolding e by (rule MakeDay_month_step)
  with Suc show ?case by auto
qed

lemma MonthFromTime_of_start:
  assumes mn: "0 \<le> mn" "mn \<le> 11" and l: "0 \<le> l" "l \<le> 1" and dt: "1 \<le> dt" "dt \<le> 28"
    and dwy: "DayWithinYear t = month_start l mn + dt - 1" and il: "InLeapYear t = l"
  shows "MonthFromTime t = mn"
proof -
  have "mn = 0 \<or> mn = 1 \<or> mn = 2 \<or> mn = 3 \<or> mn = 4 \<or> mn = 5 \<or> mn = 6 \<or> mn = 7 \<or> mn = 8
          \<or> mn = 9 \<or> mn = 10 \<or> mn = 11"
    using mn by (rule month_cases)
  then show ?thesis
    using l dt
    apply (elim disjE)
    apply (simp_all add: MonthFromTime_def Let_def dwy il month_start_def)
    done
qed

lemma MakeDay_fields:
  assumes tod: "0 \<le> tod" "tod < msPerDay" and dt: "1 \<le> dt" "dt \<le> 28"
    and t_def: "t = MakeDate (MakeDay y k dt) tod"
  shows "YearFromTime t = y + k div 12 \<and> MonthFromTime t = k mod 12
       \<and> DateFromTime t = dt \<and> TimeWithinDay t = tod"
proof -
  define ym where "ym = y + k div 12"
  define mn where "mn = k mod 12"
  define l :: int where "l = (if DaysInYear ym = 366 then 1 else 0)"
  have mn: "0 \<le> mn" "mn \<le> 11" by (simp_all add: mn_def)
  have D: "Day t = DayFromYear ym + month_start l mn + dt - 1"
    using Day_MakeDate(1) [OF tod] by (simp add: t_def MakeDay_def Let_def ym_def mn_def l_def)
  have ms: "0 \<le> month_start l mn" "month_start l mn \<le> 334 + l" and l: "l = 0 \<or> l = 1"
    using month_cases [OF mn] by (auto simp: month_start_def l_def)
  have days: "DaysInYear ym = 365 + l"
    using DaysInYear_cases [of ym] by (auto simp: l_def)
  have y: "YearFromTime t = ym"
    unfolding YearFromTime_def
    using D ms dt days DayFromYear_step [of ym] by (intro YearFromDay_unique) linarith+
  have dwy: "DayWithinYear t = month_start l mn + dt - 1"
    by (simp add: DayWithinYear_def y D)
  have il: "InLeapYear t = l"
    by (simp add: InLeapYear_def y l_def)
  have mo: "MonthFromTime t = mn"
    using mn _ _ dt dwy il by (rule MonthFromTime_of_start) (use l in auto)
  have "DateFromTime t = dt"
    by (simp add: DateFromTime_def dwy il mo)
  moreover have "TimeWithinDay t = tod"
    using Day_MakeDate(2) [OF tod] by (simp add: t_def)
  ultimately show ?thesis using y mo by (simp add: ym_def mn_def)
qed

lemma DateFromTime_range: "1 \<le> DateFromTime t \<and> DateFromTime t \<le> 31"
proof -
  define d where "d = DayWithinYear t"
  define l where "l = InLeapYear t"
  have b: "0 \<le> d" "d < 365 + l" "0 \<le> l" "l \<le> 1"
    using DayWithinYear_bounds [of t] DaysInYear_cases [of "YearFromTime t"]
    by (auto simp: d_def l_def InLeapYear_def)
  show ?thesis
    using b
    unfolding DateFromTime_def MonthFromTime_def Let_def d_def [symmetric] l_def [symmetric]
    by (simp add: month_start_def)
qed

text \<open>
  The result of \<open>add_months\<close> is the UTC time of a local time \<open>nd\<close>, which lies 28 to
  31 days for each month after the local time it started from.
\<close>

lemma add_months_local:
  assumes "add_months z t m = Some t'"
  shows "t' = UTC z (MakeDate (MakeDay (YearFromTime (LocalTime z t))
                 (MonthFromTime (LocalTime z t) + m) (DateFromTime (LocalTime z t)))
               (TimeWithinDay (LocalTime z t)))"
  using assms
  by (auto simp: add_months_def setMonth_def getMonth_def Let_def TimeClip_def split: if_splits)

lemma add_months_later:
  assumes "add_months z t (int n) = Some t'"
  shows "\<exists>nd. t' = UTC z nd
           \<and> LocalTime z t + 28 * int n * msPerDay \<le> nd
           \<and> nd \<le> LocalTime z t + 31 * int n * msPerDay"
proof -
  define lt where "lt = LocalTime z t"
  define d' where "d' = MakeDay (YearFromTime lt) (MonthFromTime lt + int n) (DateFromTime lt)"
  have t': "t' = UTC z (MakeDate d' (TimeWithinDay lt))"
    using add_months_local [OF assms] by (simp add: lt_def d'_def)
  have "Day lt + 28 * int n \<le> d' \<and> d' \<le> Day lt + 31 * int n"
    using MakeDay_months_later [of "YearFromTime lt" "MonthFromTime lt" "DateFromTime lt" n]
    by (simp add: d'_def MakeDay_inverse)
  moreover have "lt = MakeDate (Day lt) (TimeWithinDay lt)"
    by (simp add: MakeDate_inverse)
  ultimately have "lt + 28 * int n * msPerDay \<le> MakeDate d' (TimeWithinDay lt)
      \<and> MakeDate d' (TimeWithinDay lt) \<le> lt + 31 * int n * msPerDay"
    by (simp add: MakeDate_def msPerDay_def)
  with t' show ?thesis unfolding lt_def by blast
qed

text \<open>
  In UTC time the result is later by the same number of days, give or take the two
  offsets: at most two days when no offset of the host exceeds a day.
\<close>

lemma add_months_later_utc:
  assumes "add_months z t (int n) = Some t'"
    and "\<forall>u isUTC. \<bar>z u isUTC\<bar> \<le> msPerDay"
  shows "t + (28 * int n - 2) * msPerDay \<le> t'"
proof -
  from add_months_later [OF assms(1)] obtain nd where nd: "t' = UTC z nd"
    and lo: "LocalTime z t + 28 * int n * msPerDay \<le> nd"
    by blast
  have a: "\<bar>z t True\<bar> \<le> msPerDay" and b: "\<bar>z nd False\<bar> \<le> msPerDay"
    using assms(2) by blast+
  have "t + z t True + 28 * int n * 86400000 \<le> nd"
    using lo by (simp add: LocalTime_def msPerDay_def)
  moreover have "t' = nd - z nd False" using nd by (simp add: UTC_def)
  moreover have "\<bar>z t True\<bar> \<le> 86400000" "\<bar>z nd False\<bar> \<le> 86400000"
    using a b by (simp_all add: msPerDay_def)
  ultimately have "t + 28 * int n * 86400000 - 2 * 86400000 \<le> t'" by linarith
  then show ?thesis by (simp add: msPerDay_def algebra_simps)
qed

text \<open>
  For a local day of the month up to the 28th, the local time of the result has the
  same day of the month and time of day, in the month \<open>m\<close> months on.
\<close>

lemma add_months_fields:
  assumes "add_months z t m = Some t'" and "DateFromTime (LocalTime z t) \<le> 28"
  shows "\<exists>nd. t' = UTC z nd
       \<and> YearFromTime nd
           = YearFromTime (LocalTime z t) + (MonthFromTime (LocalTime z t) + m) div 12
       \<and> MonthFromTime nd = (MonthFromTime (LocalTime z t) + m) mod 12
       \<and> DateFromTime nd = DateFromTime (LocalTime z t)
       \<and> TimeWithinDay nd = TimeWithinDay (LocalTime z t)"
proof -
  define lt where "lt = LocalTime z t"
  define nd where "nd = MakeDate (MakeDay (YearFromTime lt) (MonthFromTime lt + m)
                          (DateFromTime lt)) (TimeWithinDay lt)"
  have t': "t' = UTC z nd"
    using add_months_local [OF assms(1)] by (simp add: lt_def nd_def)
  have "YearFromTime nd = YearFromTime lt + (MonthFromTime lt + m) div 12
       \<and> MonthFromTime nd = (MonthFromTime lt + m) mod 12
       \<and> DateFromTime nd = DateFromTime lt
       \<and> TimeWithinDay nd = TimeWithinDay lt"
    using TimeWithinDay_range [of lt] assms(2) DateFromTime_range [of lt]
    by (intro MakeDay_fields [OF _ _ _ _ nd_def]) (simp_all add: lt_def)
  with t' show ?thesis unfolding lt_def by blast
qed

text \<open>
  The first day of a month, as \<open>MakeDay\<close> finds it, is the day whose year, month and day
  of the month are the ones asked for (the specification of \<open>MakeDay\<close> in ECMA-262).
\<close>

lemma MakeDay_first_of_month:
  "YearFromTime (MakeDate (MakeDay y m 1) 0) = y + m div 12
   \<and> MonthFromTime (MakeDate (MakeDay y m 1) 0) = m mod 12
   \<and> DateFromTime (MakeDate (MakeDay y m 1) 0) = 1
   \<and> MakeDay y m dt = MakeDay y m 1 + dt - 1"
proof -
  have "YearFromTime (MakeDate (MakeDay y m 1) 0) = y + m div 12
      \<and> MonthFromTime (MakeDate (MakeDay y m 1) 0) = m mod 12
      \<and> DateFromTime (MakeDate (MakeDay y m 1) 0) = 1
      \<and> TimeWithinDay (MakeDate (MakeDay y m 1) 0) = 0"
    by (rule MakeDay_fields [OF _ _ _ _ refl]) (simp_all add: msPerDay_def)
  moreover have "MakeDay y m dt = MakeDay y m 1 + dt - 1"
    by (simp add: MakeDay_def Let_def)
  ultimately show ?thesis by simp
qed

subsection \<open>What each step of \<^verbatim>\<open>activateLicense\<close> touches\<close>

lemma truthy_iff: "truthy s \<longleftrightarrow> (\<exists>v. s = Some v \<and> v \<noteq> [])"
  by (cases s) (simp_all add: truthy_def)

lemma find_or_create_existing:
  "accounts w email = Some uid \<Longrightarrow> find_or_create ev email w = (Inr (uid, False), w)"
  by (simp add: find_or_create_def)

lemma node_of_put_node:
  "node_of (put_node uid n w) u = (if u = uid then n else node_of w u)"
  by (simp add: node_of_def put_node_def)

lemma users_put_node:
  "users (put_node uid n w) u = (if u = uid then Some n else users w u)"
  by (simp add: put_node_def)

lemma put_node_frame [simp]:
  "accounts (put_node uid n w) = accounts w" "outbox (put_node uid n w) = outbox w"
  by (simp_all add: put_node_def)

lemma sendActivationEmail_frame [simp]:
  "accounts (sendActivationEmail ev e w) = accounts w"
  "users (sendActivationEmail ev e w) = users w"
  by (simp_all add: sendActivationEmail_def)

lemma node_of_sendActivationEmail [simp]:
  "node_of (sendActivationEmail ev e w) u = node_of w u"
  by (simp add: node_of_def)

lemma node_of_accounts_update [simp]:
  "node_of (w\<lparr>accounts := a\<rparr>) u = node_of w u"
  by (simp add: node_of_def)

lemmas activate_unfold =
  activateLicense_def write_payment_def write_subscription_def node_of_put_node
  license_update_def Let_def truthy_iff

lemma activateLicense_history:
  assumes "activateLicense ev now now' email info w = (r, w')"
    and "paymentId info \<noteq> Some pid"
  shows "payments (node_of w' u) pid = payments (node_of w u) pid"
  using assms
  by (auto simp: activate_unfold find_or_create_def
      split: sum.splits js.splits if_splits prod.splits option.splits)

lemma activateLicense_success:
  assumes "activateLicense ev now now' email info w = (Inr (), w')"
    and "accounts w' email = Some uid"
  shows "\<exists>m lt md newExp.
           months info = Val m \<and> licenseType info = Val lt \<and> maxDevices info = Val md
         \<and> newExpDate (LocalTZA ev) now now' (ExpirationDate (node_of w uid)) (months info) = Inr newExp
         \<and> ExpirationDate (node_of w' uid) = Some newExp
         \<and> LicenseType (node_of w' uid) = Some lt \<and> MaxDevices (node_of w' uid) = Some md
         \<and> IsActive (node_of w' uid) = Some True \<and> Email (node_of w' uid) = Some email
         \<and> UpdatedAt (node_of w' uid) = Some now
         \<and> (\<forall>pid. paymentId info = Some pid \<and> pid \<noteq> [] \<longrightarrow>
               payments (node_of w' uid) pid = Some (history_entry info now))"
  using assms
  by (auto simp: activate_unfold find_or_create_def newExpDate_def
      split: sum.splits js.splits if_splits prod.splits option.splits)

lemma handlePayment_approved:
  assumes "payment_get ev pid = Inr pm" and "p_status pm = ''approved''"
    and "p_external_reference pm = Ref (Some email) p d" and "email \<noteq> []"
  shows "handlePayment ev now now' pid w
           = activateLicense ev now now' email
               (payment_grant pid pm (or_else p ''individual'') (or_else d ''1m'')) w"
  using assms by (simp add: handlePayment_def Let_def truthy_def)

lemma handlePayment_history:
  assumes "handlePayment ev now now' i w = (r, w')" and "i \<noteq> pid"
  shows "payments (node_of w' u) pid = payments (node_of w u) pid"
  using assms
  by (auto simp: handlePayment_def Let_def payment_grant_def
      split: sum.splits reference.splits if_splits
      dest!: activateLicense_history [where pid = pid and u = u])

lemma handleSubscription_history:
  assumes "handleSubscription ev now now' i w = (r, w')"
  shows "payments (node_of w' u) pid = payments (node_of w u) pid"
  using assms
  by (auto simp: handleSubscription_def subscription_grant_def
      split: sum.splits if_splits
      dest!: activateLicense_history [where pid = pid and u = u])

lemma handleSubscriptionRenewal_history:
  assumes "handleSubscriptionRenewal ev now now' i w = (r, w')"
  shows "payments (node_of w' u) pid = payments (node_of w u) pid"
  using assms
  by (auto simp: handleSubscriptionRenewal_def
      split: sum.splits if_splits authorized_payment.splits
      dest!: handleSubscription_history [where pid = pid and u = u])

lemma activateLicense_frame:
  assumes "accounts w email = Some uid"
    and "activateLicense ev now now' email info w = (r, w')"
  shows "CreatedAt (node_of w' uid) = CreatedAt (node_of w uid)
       \<and> ValidationCount (node_of w' uid) = ValidationCount (node_of w uid)
       \<and> activations (node_of w' uid) = activations (node_of w uid)
       \<and> (\<not> truthy (preapprovalId info) \<longrightarrow>
             subscription (node_of w' uid) = subscription (node_of w uid))
       \<and> (\<forall>u. u \<noteq> uid \<longrightarrow> users w' u = users w u)
       \<and> accounts w' = accounts w \<and> outbox w' = outbox w"
  using assms
  by (auto simp: activate_unfold find_or_create_existing users_put_node
      split: sum.splits js.splits if_splits prod.splits)

lemma payment_grant_months:
  "months (payment_grant pid pm pl du) = Val m \<Longrightarrow> m \<in> {1, 3, 6, 12}"
  by (auto simp: payment_grant_def or_default_def js_get_def DURATION_MONTHS_def
      split: if_splits)

subsection \<open>Hexadecimal text\<close>

lemma below_16:
  "n < 16 \<Longrightarrow> n \<in> {0, 1, 2, 3, 4, 5, 6, 7, 8, 9, 10, 11, 12, 13, 14, 15 :: nat}"
proof -
  assume "n < 16"
  then consider "n < 6" | "6 \<le> n \<and> n < 11" | "11 \<le> n \<and> n < 16" by linarith
  then show ?thesis by cases auto
qed

lemma nibbles: "(of_char b :: nat) div 16 < 16" "(of_char b :: nat) mod 16 < 16"
proof -
  have "(of_char b :: nat) < 16 * 16" by simp
  then show "(of_char b :: nat) div 16 < 16" by (rule less_mult_imp_div_less)
  show "(of_char b :: nat) mod 16 < 16" by simp
qed

lemma hex_value_hex_digit: "n < 16 \<Longrightarrow> hex_value (hex_digit n) = Some n"
  by (drule below_16) (auto simp: hex_value_def hex_digit_def)

lemma from_hex_to_hex: "from_hex (to_hex bs) = bs"
proof (induction bs)
  case Nil
  then show ?case by (simp add: to_hex_def)
next
  case (Cons b bs)
  note d = nibbles(1) [of b] and m = nibbles(2) [of b]
  have "char_of (16 * ((of_char b :: nat) div 16) + of_char b mod 16) = b"
    by simp
  with Cons show ?case
    by (simp add: to_hex_def hex_value_hex_digit [OF d] hex_value_hex_digit [OF m])
qed

lemma timingSafeEqual_iff:
  "(case timingSafeEqual a b of Inl _ \<Rightarrow> False | Inr r \<Rightarrow> r) \<longleftrightarrow> a = b"
  by (auto simp: timingSafeEqual_def)

lemma verifySignature_iff:
  "verifySignature hm req secret \<longleftrightarrow>
     (let xs = or_else (x_signature req) [] in
        xs = [] \<or>
        from_hex (part (signature_parts xs) ''v1'')
          = hm secret (signed_manifest (event_id req) (or_else (x_request_id req) [])
                         (part (signature_parts xs) ''ts'')))"
  by (simp add: verifySignature_def Let_def timingSafeEqual_iff from_hex_to_hex event_id_def)

subsection \<open>Parsing the header\<close>

lemma split_on_none: "c \<notin> set s \<Longrightarrow> split_on c s = [s]"
  by (induction s) auto

lemma split_on_first: "c \<notin> set a \<Longrightarrow> split_on c (a @ c # b) = a # split_on c b"
  by (induction a) auto

lemma trim_id: "s = [] \<or> (\<not> is_space (hd s) \<and> \<not> is_space (last s)) \<Longrightarrow> trim s = s"
proof (cases s)
  case Nil
  then show ?thesis by (simp add: trim_def)
next
  case (Cons x xs)
  assume "s = [] \<or> (\<not> is_space (hd s) \<and> \<not> is_space (last s))"
  with Cons have h: "\<not> is_space x" and l: "\<not> is_space (last (x # xs))" by auto
  have "hd (rev (x # xs)) = last (x # xs)" by (rule hd_rev)
  with l have "dropWhile is_space (rev (x # xs)) = rev (x # xs)"
    by (cases "rev (x # xs)") auto
  then show ?thesis using Cons h by (simp add: trim_def)
qed

lemma entry_of_pair:
  assumes "unbroken v" and "k \<noteq> []" and "\<not> is_space (hd k)" and "CHR ''='' \<notin> set k"
  shows "entry_of (k @ ''='' @ v) = (k, Some v)"
proof -
  have "last (k @ ''='' @ v) = (if v = [] then CHR ''='' else last v)" by simp
  then have "\<not> is_space (last (k @ ''='' @ v))"
    using assms(1) by (auto simp: unbroken_def is_space_def)
  moreover have "hd (k @ ''='' @ v) = hd k" using assms(2) by simp
  ultimately have "trim (k @ ''='' @ v) = k @ ''='' @ v"
    using assms(3) by (intro trim_id) simp
  moreover have "split_on CHR ''='' (k @ CHR ''='' # v) = [k, v]"
    using split_on_first [OF assms(4), of v] split_on_none [of "CHR ''=''" v] assms(1)
    by (simp add: unbroken_def)
  ultimately show ?thesis by (simp add: entry_of_def)
qed

lemma signature_parts_header:
  assumes "unbroken ts" and "unbroken v1"
  shows "signature_parts (signature_header ts v1) = [(''ts'', Some ts), (''v1'', Some v1)]"
proof -
  have c: "CHR '','' \<notin> set (''ts='' @ ts)" "CHR '','' \<notin> set (''v1='' @ v1)"
    using assms by (simp_all add: unbroken_def)
  have "split_on CHR '','' ((''ts='' @ ts) @ CHR '','' # (''v1='' @ v1))
               = [''ts='' @ ts, ''v1='' @ v1]"
    unfolding split_on_first [OF c(1)] split_on_none [OF c(2)] ..
  moreover have "entry_of (''ts'' @ ''='' @ ts) = (''ts'', Some ts)"
    using assms(1) by (intro entry_of_pair) (simp_all add: is_space_def)
  moreover have "entry_of (''v1'' @ ''='' @ v1) = (''v1'', Some v1)"
    using assms(2) by (intro entry_of_pair) (simp_all add: is_space_def)
  ultimately show ?thesis
    by (simp add: signature_parts_def signature_header_def)
qed

lemma parts_of_header:
  assumes "unbroken ts" and "unbroken v1"
  shows "part (signature_parts (signature_header ts v1)) ''ts'' = ts"
    and "part (signature_parts (signature_header ts v1)) ''v1'' = v1"
  by (simp_all add: signature_parts_header [OF assms] part_def or_else_def)

lemma hex_digit_cases:
  "n < 16 \<Longrightarrow> hex_digit n \<in> set ''0123456789abcdef''"
  by (drule below_16) (auto simp: hex_digit_def)

lemma to_hex_chars: "set (to_hex bs) \<subseteq> set ''0123456789abcdef''"
proof (induction bs)
  case Nil
  then show ?case by (simp add: to_hex_def)
next
  case (Cons b bs)
  have "to_hex (b # bs)
          = hex_digit (of_char b div 16) # hex_digit (of_char b mod 16) # to_hex bs"
    by (simp add: to_hex_def)
  with Cons hex_digit_cases [OF nibbles(1), of b] hex_digit_cases [OF nibbles(2), of b]
  show ?case by simp
qed

lemma unbroken_to_hex: "unbroken (to_hex bs)"
proof -
  have s: "set (to_hex bs) \<subseteq> set ''0123456789abcdef''" by (rule to_hex_chars)
  then have "CHR '','' \<notin> set (to_hex bs)" "CHR ''='' \<notin> set (to_hex bs)" by auto
  moreover have "to_hex bs = [] \<or> \<not> is_space (last (to_hex bs))"
  proof (cases "to_hex bs = []")
    case False
    then have "last (to_hex bs) \<in> set ''0123456789abcdef''" using s last_in_set by blast
    then show ?thesis by (auto simp: is_space_def)
  qed simp
  ultimately show ?thesis by (simp add: unbroken_def)
qed

text \<open>The text after the digest is not read.\<close>

lemma from_hex_trailing: "from_hex (to_hex bs @ ''zz'') = bs"
proof (induction bs)
  case Nil
  then show ?case by (simp add: to_hex_def hex_value_def)
next
  case (Cons b bs)
  note d = nibbles(1) [of b] and m = nibbles(2) [of b]
  have "char_of (16 * ((of_char b :: nat) div 16) + of_char b mod 16) = b"
    by simp
  moreover have "to_hex (b # bs) @ ''zz''
      = hex_digit (of_char b div 16) # hex_digit (of_char b mod 16) # (to_hex bs @ ''zz'')"
    by (simp add: to_hex_def)
  ultimately show ?case
    using Cons by (simp add: hex_value_hex_digit [OF d] hex_value_hex_digit [OF m])
qed

subsection \<open>The test environment, evaluated\<close>

text \<open>
  The first delivery of payment 123 creates the account and sets the expiration to
  2027-02-02T10:00:00Z; the retry one second later moves it to 2027-05-02T10:00:00Z and
  rewrites the history entry with the time of the retry.
\<close>

lemma first_delivery:
  "fst (handlePayment demo_env t0 t0 ''123'' demo_world) = Inr ()"
  "accounts after_first ''a@b.com'' = Some ''uid-a@b.com''"
  "ExpirationDate (node_of after_first ''uid-a@b.com'') = Some 1801562400000"
  "map_option pe_date (payments (node_of after_first ''uid-a@b.com'') ''123'') = Some 1793613600000"
  by code_simp+

lemma second_delivery:
  "fst (handlePayment demo_env (t0 + 1000) (t0 + 1000) ''123'' after_first) = Inr ()"
  "ExpirationDate (node_of after_second ''uid-a@b.com'') = Some 1809252000000"
  "map_option pe_date (payments (node_of after_second ''uid-a@b.com'') ''123'') = Some 1793613601000"
  by code_simp+

lemma month_end_rolls_over:
  "add_months utc_host 1675123200000 1 = Some 1677801600000"
  "(YearFromTime 1675123200000, MonthFromTime 1675123200000, DateFromTime 1675123200000) = (2023, 0, 31)"
  "(YearFromTime 1677801600000, MonthFromTime 1677801600000, DateFromTime 1677801600000) = (2023, 2, 3)"
  by code_simp+

lemma member_delivery:
  "fst (handlePayment demo_env t0 (t0 + 1) ''123'' member_world) = Inr ()"
  "accounts (snd (handlePayment demo_env t0 (t0 + 1) ''123'' member_world)) ''a@b.com'' = Some ''u1''"
  "fst (handlePayment demo_env t0 (t0 + 1) ''123'' lapsed_world) = Inr ()"
  "accounts (snd (handlePayment demo_env t0 (t0 + 1) ''123'' lapsed_world)) ''a@b.com'' = Some ''u1''"
  "months (payment_grant ''123'' demo_payment ''individual'' ''3m'') = Val 3"
  "add_months utc_host 1797292800000 3 = Some 1805068800000"
  "add_months utc_host (t0 + 1) 3 = Some 1801562400001"
  by code_simp+

text \<open>
  On the New York host: six months from 2026-11-02 05:00 local time (EST) is 2027-05-02
  05:00 local time (EDT), one hour less in UTC than on a host with a fixed offset; one
  month from 2027-02-15 12:00 EST is 2027-03-15 12:00 EDT, an hour short of 28 days;
  three months from 2026-12-14 19:00 EST is 2027-03-14 19:00 EDT.
\<close>

lemma new_york_months:
  "add_months new_york 1793613600000 6 = Some 1809248400000"
  "add_months new_york 1801562400000 3 = Some 1809248400000"
  "add_months new_york 1802710800000 1 = Some 1805126400000"
  "1805126400000 = (1802710800000::int) + 28 * msPerDay - 3600000"
  "add_months new_york 1797292800000 3 = Some 1805065200000"
  by code_simp+

lemma new_york_offsets: "\<bar>new_york t isUTC\<bar> \<le> msPerDay"
  by (simp add: new_york_def msPerDay_def)

lemma utc_host_offsets: "\<bar>utc_host t isUTC\<bar> \<le> msPerDay"
  by (simp add: utc_host_def msPerDay_def)

text \<open>
  The deliveries on the New York host. The first sets 2027-02-02 05:00 local time, which
  is 10:00 UTC as on the host in UTC; the retry sets 2027-05-02 05:00 local time, 09:00
  UTC, since daylight saving time has begun in between. The member's license, which runs
  until 2026-12-14 19:00 local time, is extended to 2027-03-14 19:00 local time, 23:00
  UTC.
\<close>

lemma new_york_delivery:
  "fst (handlePayment new_york_env t0 t0 ''123'' demo_world) = Inr ()"
  "accounts new_york_first ''a@b.com'' = Some ''uid-a@b.com''"
  "ExpirationDate (node_of new_york_first ''uid-a@b.com'') = Some 1801562400000"
  "fst (handlePayment new_york_env (t0 + 1000) (t0 + 1000) ''123'' new_york_first) = Inr ()"
  "ExpirationDate (node_of new_york_second ''uid-a@b.com'') = Some 1809248400000"
  "fst (handlePayment new_york_env t0 (t0 + 1) ''123'' member_world) = Inr ()"
  "accounts (snd (handlePayment new_york_env t0 (t0 + 1) ''123'' member_world)) ''a@b.com''
     = Some ''u1''"
  by code_simp+

lemma demo_payment_approved:
  "handlePayment demo_env now now' ''123'' w
     = activateLicense demo_env now now' ''a@b.com''
         (payment_grant ''123'' demo_payment ''individual'' ''3m'') w"
  using handlePayment_approved [of demo_env "''123''" demo_payment "''a@b.com''"
          "Some ''individual''" "Some ''3m''" now now' w]
  by (simp add: demo_env_def demo_payment_def or_else_def)

subsection \<open>The new expiration date\<close>

text \<open>
  Claim C1. After a successful activation with a grant of \<open>m\<close> months, the stored
  expiration is the old stored expiration plus \<open>m\<close> calendar months when that exists and
  is strictly later than the current time \<open>now\<close>; otherwise (nothing stored, or a stored
  expiration at or before \<open>now\<close>) it is the current time plus \<open>m\<close> calendar months, the
  current time being the reading \<open>now'\<close> that \<^verbatim>\<open>baseDate\<close> starts from. Adding months is
  \<open>add_months\<close>, the raw month increment of \<^verbatim>\<open>setMonth\<close> in the local time of the host,
  whatever its time zone \<open>LocalTZA ev\<close>, with or without daylight saving time: lemma
  \<open>add_months_fields\<close> shows that it keeps the local day of the month and time of day
  when the day is at most 28, and \<open>month_end_rolls_over\<close> that a later day rolls over
  into the following month instead of being clamped.
\<close>

theorem new_expiration_extends_or_restarts:
  assumes "activateLicense ev now now' email info w = (Inr (), w')"
    and "accounts w' email = Some uid"
    and "months info = Val m"
  shows "(\<forall>E. ExpirationDate (node_of w uid) = Some E \<and> E > now
             \<longrightarrow> ExpirationDate (node_of w' uid) = add_months (LocalTZA ev) E m)
       \<and> (ExpirationDate (node_of w uid) = None
            \<or> (\<exists>E. ExpirationDate (node_of w uid) = Some E \<and> E \<le> now)
             \<longrightarrow> ExpirationDate (node_of w' uid) = add_months (LocalTZA ev) now' m)
       \<and> ExpirationDate (node_of w' uid) \<noteq> None"
  using activateLicense_success [OF assms(1,2)] assms(3)
  by (auto simp: newExpDate_def baseDate_def split: option.splits if_splits)

theorem new_expiration_extends_or_restarts_witness:
  "ExpirationDate (node_of (snd (handlePayment demo_env t0 (t0 + 1) ''123'' member_world)) ''u1'')
     = Some 1805068800000
   \<and> ExpirationDate (node_of (snd (handlePayment demo_env t0 (t0 + 1) ''123'' lapsed_world)) ''u1'')
     = Some 1801562400001
   \<and> ExpirationDate (node_of (snd (handlePayment new_york_env t0 (t0 + 1) ''123'' member_world)) ''u1'')
     = Some 1805065200000"
proof -
  let ?g = "payment_grant ''123'' demo_payment ''individual'' ''3m''"
  have ny: "handlePayment new_york_env t0 (t0 + 1) ''123'' member_world
              = activateLicense new_york_env t0 (t0 + 1) ''a@b.com'' ?g member_world"
    using handlePayment_approved [of new_york_env "''123''" demo_payment "''a@b.com''"
            "Some ''individual''" "Some ''3m''" t0 "t0 + 1" member_world]
    by (simp add: new_york_env_def demo_env_def demo_payment_def or_else_def)
  have c: "activateLicense new_york_env t0 (t0 + 1) ''a@b.com'' ?g member_world
             = (Inr (), snd (handlePayment new_york_env t0 (t0 + 1) ''123'' member_world))"
    using new_york_delivery(6) by (simp add: prod_eq_iff ny)
  have a: "activateLicense demo_env t0 (t0 + 1) ''a@b.com'' ?g member_world
             = (Inr (), snd (handlePayment demo_env t0 (t0 + 1) ''123'' member_world))"
    using member_delivery(1) by (simp add: prod_eq_iff demo_payment_approved)
  have b: "activateLicense demo_env t0 (t0 + 1) ''a@b.com'' ?g lapsed_world
             = (Inr (), snd (handlePayment demo_env t0 (t0 + 1) ''123'' lapsed_world))"
    using member_delivery(3) by (simp add: prod_eq_iff demo_payment_approved)
  have m: "ExpirationDate (node_of member_world ''u1'') = Some 1797292800000"
    "(1797292800000::int) > t0"
    by (simp_all add: member_world_def node_of_def empty_node_def t0_def)
  have l: "ExpirationDate (node_of lapsed_world ''u1'') = Some 1790812800000"
    "(1790812800000::int) \<le> t0"
    by (simp_all add: lapsed_world_def node_of_def empty_node_def t0_def)
  have z: "LocalTZA demo_env = utc_host" "LocalTZA new_york_env = new_york"
    by (simp_all add: demo_env_def new_york_env_def)
  show ?thesis
    using new_expiration_extends_or_restarts [OF a member_delivery(2) member_delivery(5)]
          new_expiration_extends_or_restarts [OF b member_delivery(4) member_delivery(5)]
          new_expiration_extends_or_restarts [OF c new_york_delivery(7) member_delivery(5)]
          m l
    by (simp add: member_delivery(6,7) new_york_months(5) z)
qed

subsection \<open>The same payment delivered twice\<close>

text \<open>
  Claim C2 says that a second delivery of the same approved payment id leaves the
  expiration where the first delivery put it. It does not: \<^verbatim>\<open>activateLicense\<close> never
  looks at the payment history before it extends. In the test environment, on the host
  in UTC, the first delivery sets 2027-02-02T10:00:00Z and the retry
  2027-05-02T10:00:00Z.
\<close>

theorem same_payment_twice_extends_twice:
  "fst (handlePayment demo_env t0 t0 ''123'' demo_world) = Inr ()
   \<and> fst (handlePayment demo_env (t0 + 1000) (t0 + 1000) ''123'' after_first) = Inr ()
   \<and> ExpirationDate (node_of after_first ''uid-a@b.com'') = Some 1801562400000
   \<and> ExpirationDate (node_of after_second ''uid-a@b.com'') = Some 1809252000000
   \<and> ExpirationDate (node_of after_second ''uid-a@b.com'')
       \<noteq> ExpirationDate (node_of after_first ''uid-a@b.com'')"
  by (simp add: first_delivery second_delivery)

text \<open>
  Claim C2 as amended. When the same approved payment is processed twice and the
  expiration \<open>E1\<close> left by the first processing is still in the future at the second,
  the second processing sets the expiration to \<open>E1\<close> plus the grant's months (1, 3, 6
  or 12), added in the local time of the host: the expiration is extended a second
  time. On a host whose local time is never more than a day away from UTC, the new
  expiration is later than \<open>E1\<close> by at least 28 days for each month, less two days (in
  local time it is at least 28 days for each month: lemma \<open>add_months_later\<close>; across
  a change of the offset the UTC time moves by the difference, so that one month from
  2027-02-15 in New York is an hour short of 28 days: lemma \<open>new_york_months\<close>).
\<close>

theorem second_delivery_extends_again:
  assumes "payment_get ev pid = Inr pm" and "p_status pm = ''approved''"
    and "p_external_reference pm = Ref (Some email) p d" and "email \<noteq> []"
    and "handlePayment ev t1 t1' pid w = (Inr (), w1)"
    and "handlePayment ev t2 t2' pid w1 = (Inr (), w2)"
    and "accounts w1 email = Some uid"
    and "ExpirationDate (node_of w1 uid) = Some E1" and "t2 < E1"
  shows "\<exists>m E2. months (payment_grant pid pm (or_else p ''individual'') (or_else d ''1m''))
                  = Val m \<and> m \<in> {1, 3, 6, 12}
             \<and> ExpirationDate (node_of w2 uid) = Some E2
             \<and> add_months (LocalTZA ev) E1 m = Some E2
             \<and> ((\<forall>t isUTC. \<bar>LocalTZA ev t isUTC\<bar> \<le> msPerDay)
                  \<longrightarrow> E1 + (28 * m - 2) * msPerDay \<le> E2)"
proof -
  let ?g = "payment_grant pid pm (or_else p ''individual'') (or_else d ''1m'')"
  have act: "activateLicense ev t2 t2' email ?g w1 = (Inr (), w2)"
    using handlePayment_approved [OF assms(1-4), of t2 t2' w1] assms(6) by simp
  have acc: "accounts w2 email = Some uid"
    using activateLicense_frame [OF assms(7) act] assms(7) by simp
  from activateLicense_success [OF act acc] assms(8,9)
  obtain m E2 where m: "months ?g = Val m"
    and E2: "ExpirationDate (node_of w2 uid) = Some E2"
    and add: "add_months (LocalTZA ev) E1 m = Some E2"
    by (auto simp: newExpDate_def baseDate_def split: option.splits)
  have mm: "m \<in> {1, 3, 6, 12}" using m by (rule payment_grant_months)
  then have nat: "m = int (nat m)" by auto
  with add have n: "add_months (LocalTZA ev) E1 (int (nat m)) = Some E2" by simp
  have "E1 + (28 * m - 2) * msPerDay \<le> E2"
    if "\<forall>t isUTC. \<bar>LocalTZA ev t isUTC\<bar> \<le> msPerDay"
    using add_months_later_utc [OF n that] nat by simp
  with m mm E2 add show ?thesis by blast
qed

theorem second_delivery_extends_again_witness:
  "(\<exists>m E2. months (payment_grant ''123'' demo_payment ''individual'' ''3m'') = Val m
         \<and> m \<in> {1, 3, 6, 12}
         \<and> ExpirationDate (node_of after_second ''uid-a@b.com'') = Some E2
         \<and> add_months utc_host 1801562400000 m = Some E2
         \<and> 1801562400000 + (28 * m - 2) * msPerDay \<le> E2)
   \<and> (\<exists>m E2. months (payment_grant ''123'' demo_payment ''individual'' ''3m'') = Val m
         \<and> m \<in> {1, 3, 6, 12}
         \<and> ExpirationDate (node_of new_york_second ''uid-a@b.com'') = Some E2
         \<and> add_months new_york 1801562400000 m = Some E2
         \<and> 1801562400000 + (28 * m - 2) * msPerDay \<le> E2)"
proof -
  have 1: "payment_get demo_env ''123'' = Inr demo_payment" by (simp add: demo_env_def)
  have n1: "payment_get new_york_env ''123'' = Inr demo_payment"
    by (simp add: new_york_env_def demo_env_def)
  have n5: "handlePayment new_york_env t0 t0 ''123'' demo_world = (Inr (), new_york_first)"
    using new_york_delivery(1) by (simp add: new_york_first_def prod_eq_iff)
  have n6: "handlePayment new_york_env (t0 + 1000) (t0 + 1000) ''123'' new_york_first
              = (Inr (), new_york_second)"
    using new_york_delivery(4) by (simp add: new_york_second_def prod_eq_iff)
  have z: "LocalTZA demo_env = utc_host" "LocalTZA new_york_env = new_york"
    by (simp_all add: demo_env_def new_york_env_def)
  have 2: "p_status demo_payment = ''approved''" by (simp add: demo_payment_def)
  have 3: "p_external_reference demo_payment
             = Ref (Some ''a@b.com'') (Some ''individual'') (Some ''3m'')"
    by (simp add: demo_payment_def)
  have 4: "''a@b.com'' \<noteq> []" by simp
  have 5: "handlePayment demo_env t0 t0 ''123'' demo_world = (Inr (), after_first)"
    using first_delivery(1) by (simp add: after_first_def prod_eq_iff)
  have 6: "handlePayment demo_env (t0 + 1000) (t0 + 1000) ''123'' after_first = (Inr (), after_second)"
    using second_delivery(1) by (simp add: after_second_def prod_eq_iff)
  have 9: "t0 + 1000 < 1801562400000" by (simp add: t0_def)
  show ?thesis
    using second_delivery_extends_again [OF 1 2 3 4 5 6 first_delivery(2) first_delivery(3) 9]
          second_delivery_extends_again [OF n1 2 3 4 n5 n6 new_york_delivery(2) new_york_delivery(3) 9]
    by (simp add: or_else_def z new_york_offsets utc_host_offsets)
qed

subsection \<open>Signature verification\<close>

text \<open>
  Claim C3 says that every signature value that differs from the HMAC in at least one
  byte fails. The comparison is between decoded buffers: \<^verbatim>\<open>Buffer.from(hash, 'hex')\<close>
  reads digits of either case and stops at the first pair that is not hexadecimal. For
  the key \<^verbatim>\<open>S\<close>, event id 123, request id \<^verbatim>\<open>abc\<close> and timestamp 999, the header
  value in upper case differs from the lower-case digest text in 24 characters and
  verifies, and so does the digest text followed by \<^verbatim>\<open>zz\<close>. A value that contains the
  separator of the header is cut there and the last entry counts: the value
  \<^verbatim>\<open>00,v1=<digest>\<close>, whose decoding is the one byte 0, verifies. The claim also says
  that the header carrying the HMAC verifies for every timestamp: a timestamp that
  contains the separator, as \<^verbatim>\<open>9,9\<close> does, is cut too, the manifest is rebuilt with
  \<^verbatim>\<open>9\<close> and the correctly signed header fails.
\<close>

theorem other_signature_text_verifies:
  "to_hex (test_hmac ''S'' (signed_manifest ''123'' ''abc'' ''999''))
     = ''5c2604b8fc66d9ced1eef8f7334312460e838418c921eab4b2371f99f43bacf1''
   \<and> ''5C2604B8FC66D9CED1EEF8F7334312460E838418C921EAB4B2371F99F43BACF1''
       \<noteq> ''5c2604b8fc66d9ced1eef8f7334312460e838418c921eab4b2371f99f43bacf1''
   \<and> verifySignature test_hmac
        (signed_event ''5C2604B8FC66D9CED1EEF8F7334312460E838418C921EAB4B2371F99F43BACF1'') ''S''
   \<and> verifySignature test_hmac
        (signed_event ''5c2604b8fc66d9ced1eef8f7334312460e838418c921eab4b2371f99f43bacf1zz'') ''S''
   \<and> from_hex ''00,v1=5c2604b8fc66d9ced1eef8f7334312460e838418c921eab4b2371f99f43bacf1''
       \<noteq> test_hmac ''S'' (signed_manifest ''123'' ''abc'' ''999'')
   \<and> verifySignature test_hmac
        (signed_event ''00,v1=5c2604b8fc66d9ced1eef8f7334312460e838418c921eab4b2371f99f43bacf1'') ''S''
   \<and> x_signature comma_event
       = Some (signature_header ''9,9''
           (to_hex (test_hmac ''S'' (signed_manifest ''123'' ''abc'' ''9,9''))))
   \<and> \<not> verifySignature test_hmac comma_event ''S''"
  by code_simp

text \<open>
  Claim C3 as amended. A timestamp or a signature value is \<open>unbroken\<close> when it contains
  no \<^verbatim>\<open>,\<close> and no \<^verbatim>\<open>=\<close> and does not end in white space. With a secret configured:
  for every event id, request id and unbroken timestamp, the header
  \<^verbatim>\<open>ts=<ts>,v1=<hex of the HMAC-SHA256 of the manifest>\<close> verifies; a header
  \<^verbatim>\<open>ts=<ts>,v1=<v1>\<close> with an unbroken timestamp and an unbroken value \<open>v1\<close> verifies
  exactly when the hexadecimal decoding of \<open>v1\<close> is the HMAC, so that an unbroken value
  whose decoding differs from the HMAC in at least one byte, or in length, fails. A
  header of any other form, if it is not empty, verifies exactly when the decoding of
  the value that the parser reads for \<^verbatim>\<open>v1\<close> is the HMAC of the manifest built with
  the value that it reads for \<^verbatim>\<open>ts\<close> (for each key the last entry of the header split
  at the commas, each entry trimmed and split at \<^verbatim>\<open>=\<close>, its second piece taken; the
  empty string when there is none). When the \<^verbatim>\<open>x-signature\<close> header is absent or
  empty the verification returns true, and when no secret is configured no request is
  rejected.
\<close>

theorem signature_verification:
  "(unbroken ts \<and>
    x_signature req = Some (signature_header ts
      (to_hex (hm secret (signed_manifest (event_id req) (or_else (x_request_id req) []) ts))))
      \<longrightarrow> verifySignature hm req secret)
   \<and> (unbroken ts \<and> unbroken v1 \<and> x_signature req = Some (signature_header ts v1)
      \<longrightarrow> (verifySignature hm req secret \<longleftrightarrow>
             from_hex v1
               = hm secret (signed_manifest (event_id req) (or_else (x_request_id req) []) ts)))
   \<and> (x_signature req = Some xs \<and> xs \<noteq> []
      \<longrightarrow> (verifySignature hm req secret \<longleftrightarrow>
             from_hex (part (signature_parts xs) ''v1'')
               = hm secret (signed_manifest (event_id req) (or_else (x_request_id req) [])
                              (part (signature_parts xs) ''ts''))))
   \<and> (\<not> truthy (x_signature req) \<longrightarrow> verifySignature hm req secret)
   \<and> (\<not> truthy (MP_WEBHOOK_SECRET ev) \<longrightarrow> \<not> signature_rejected ev req)"
proof (intro conjI impI)
  assume a: "x_signature req = Some xs \<and> xs \<noteq> []"
  then have "or_else (x_signature req) [] = xs" by (simp add: or_else_def truthy_def)
  with a show "verifySignature hm req secret \<longleftrightarrow>
     from_hex (part (signature_parts xs) ''v1'')
       = hm secret (signed_manifest (event_id req) (or_else (x_request_id req) [])
                      (part (signature_parts xs) ''ts''))"
    by (simp add: verifySignature_iff Let_def)
next
  assume "\<not> truthy (x_signature req)"
  then show "verifySignature hm req secret"
    by (auto simp: verifySignature_def truthy_def or_else_def split: option.splits)
next
  assume "\<not> truthy (MP_WEBHOOK_SECRET ev)"
  then show "\<not> signature_rejected ev req" by (simp add: signature_rejected_def)
next
  assume a: "unbroken ts \<and> unbroken v1 \<and> x_signature req = Some (signature_header ts v1)"
  then have "or_else (x_signature req) [] = signature_header ts v1"
    by (simp add: or_else_def signature_header_def)
  with a show "verifySignature hm req secret \<longleftrightarrow>
     from_hex v1 = hm secret (signed_manifest (event_id req) (or_else (x_request_id req) []) ts)"
    by (simp add: verifySignature_iff Let_def parts_of_header) (simp add: signature_header_def)
next
  let ?v = "to_hex (hm secret (signed_manifest (event_id req) (or_else (x_request_id req) []) ts))"
  assume a: "unbroken ts \<and> x_signature req = Some (signature_header ts ?v)"
  then have "or_else (x_signature req) [] = signature_header ts ?v"
    by (simp add: or_else_def signature_header_def)
  with a unbroken_to_hex [of "hm secret (signed_manifest (event_id req) (or_else (x_request_id req) []) ts)"]
  show "verifySignature hm req secret"
    by (simp add: verifySignature_iff Let_def parts_of_header from_hex_to_hex)
qed

theorem signature_verification_witness:
  "verifySignature test_hmac
     (signed_event ''5c2604b8fc66d9ced1eef8f7334312460e838418c921eab4b2371f99f43bacf1'') ''S''
   \<and> \<not> verifySignature test_hmac
     (signed_event ''5c2604b8fc66d9ced1eef8f7334312460e838418c921eab4b2371f99f43bacf0'') ''S''
   \<and> verifySignature test_hmac
     (signed_event ''00,v1=5c2604b8fc66d9ced1eef8f7334312460e838418c921eab4b2371f99f43bacf1'') ''S''
   \<and> verifySignature test_hmac (payment_event ''123'') ''S''
   \<and> \<not> signature_rejected demo_env (signed_event ''00'')"
proof -
  have e: "event_id (signed_event v) = ''123''" "or_else (x_request_id (signed_event v)) [] = ''abc''"
    "x_signature (signed_event v) = Some (signature_header ''999'' v)" for v
    by (simp_all add: signed_event_def event_id_def or_else_def or_opt_def truthy_def)
  have u: "unbroken ''999''"
    "unbroken ''5c2604b8fc66d9ced1eef8f7334312460e838418c921eab4b2371f99f43bacf1''"
    "unbroken ''5c2604b8fc66d9ced1eef8f7334312460e838418c921eab4b2371f99f43bacf0''"
    by code_simp+
  have h: "to_hex (test_hmac ''S'' (signed_manifest ''123'' ''abc'' ''999''))
             = ''5c2604b8fc66d9ced1eef8f7334312460e838418c921eab4b2371f99f43bacf1''"
    "from_hex ''5c2604b8fc66d9ced1eef8f7334312460e838418c921eab4b2371f99f43bacf0''
       \<noteq> test_hmac ''S'' (signed_manifest ''123'' ''abc'' ''999'')"
    "from_hex ''5c2604b8fc66d9ced1eef8f7334312460e838418c921eab4b2371f99f43bacf1''
       = test_hmac ''S'' (signed_manifest ''123'' ''abc'' ''999'')"
    by code_simp+
  have p: "part (signature_parts (signature_header ''999''
              ''00,v1=5c2604b8fc66d9ced1eef8f7334312460e838418c921eab4b2371f99f43bacf1'')) ''v1''
             = ''5c2604b8fc66d9ced1eef8f7334312460e838418c921eab4b2371f99f43bacf1''"
    "part (signature_parts (signature_header ''999''
              ''00,v1=5c2604b8fc66d9ced1eef8f7334312460e838418c921eab4b2371f99f43bacf1'')) ''ts''
             = ''999''"
    "signature_header ''999'' ''00,v1=5c2604b8fc66d9ced1eef8f7334312460e838418c921eab4b2371f99f43bacf1'' \<noteq> []"
    by code_simp+
  have n: "\<not> truthy (x_signature (payment_event ''123''))" "\<not> truthy (MP_WEBHOOK_SECRET demo_env)"
    by (simp_all add: payment_event_def demo_env_def truthy_def)
  show ?thesis
    using signature_verification [of "''999''" "signed_event ''5c2604b8fc66d9ced1eef8f7334312460e838418c921eab4b2371f99f43bacf1''" test_hmac "''S''"
            "''5c2604b8fc66d9ced1eef8f7334312460e838418c921eab4b2371f99f43bacf1''"
            "[]" demo_env]
          signature_verification [of "''999''" "signed_event ''5c2604b8fc66d9ced1eef8f7334312460e838418c921eab4b2371f99f43bacf0''" test_hmac "''S''"
            "''5c2604b8fc66d9ced1eef8f7334312460e838418c921eab4b2371f99f43bacf0''"
            "[]" demo_env]
          signature_verification [of "''999''" "signed_event ''00,v1=5c2604b8fc66d9ced1eef8f7334312460e838418c921eab4b2371f99f43bacf1''" test_hmac "''S''"
            "''5c2604b8fc66d9ced1eef8f7334312460e838418c921eab4b2371f99f43bacf0''"
            "signature_header ''999''
                        ''00,v1=5c2604b8fc66d9ced1eef8f7334312460e838418c921eab4b2371f99f43bacf1''" demo_env]
          signature_verification [of "''999''" "payment_event ''123''" test_hmac "''S''"
            "''5c2604b8fc66d9ced1eef8f7334312460e838418c921eab4b2371f99f43bacf0''"
            "[]" demo_env]
          signature_verification [of "''999''" "signed_event ''00''" test_hmac "''S''"
            "''5c2604b8fc66d9ced1eef8f7334312460e838418c921eab4b2371f99f43bacf0''"
            "[]" demo_env]
          u n
    by (simp add: e h p del: from_hex.simps)
qed

subsection \<open>Events that are not actionable\<close>

text \<open>
  Claim C4. When the object fetched from the processor does not have the required
  status (a payment that is not \<^verbatim>\<open>approved\<close>, a preapproval that is not
  \<^verbatim>\<open>authorized\<close>, an authorized payment that is not \<^verbatim>\<open>processed\<close>), the handler
  returns normally and the world is the one it started from: no account is created, no
  database node is written and no email is requested.
\<close>

theorem wrong_status_is_noop:
  "(payment_get ev i = Inr pm \<and> p_status pm \<noteq> ''approved''
      \<longrightarrow> handlePayment ev now now' i w = (Inr (), w)) \<and>
   (preapproval_get ev i = Inr ps \<and> s_status ps \<noteq> ''authorized''
      \<longrightarrow> handleSubscription ev now now' i w = (Inr (), w)) \<and>
   (authorized_payment_get ev i = Inr (Ok pre st) \<and> st \<noteq> ''processed''
      \<longrightarrow> handleSubscriptionRenewal ev now now' i w = (Inr (), w))"
  by (simp add: handlePayment_def handleSubscription_def handleSubscriptionRenewal_def)

theorem wrong_status_is_noop_witness:
  "handlePayment demo_env t0 t0 ''124'' demo_world = (Inr (), demo_world) \<and>
   handleSubscription demo_env t0 t0 ''sub2'' demo_world = (Inr (), demo_world) \<and>
   handleSubscriptionRenewal demo_env t0 t0 ''ap2'' demo_world = (Inr (), demo_world)"
  using wrong_status_is_noop [of demo_env "''124''" "demo_payment\<lparr>p_status := ''pending''\<rparr>" t0 t0 demo_world]
        wrong_status_is_noop [of demo_env "''sub2''" _ t0 t0 demo_world "demo_preapproval\<lparr>s_status := ''paused''\<rparr>"]
        wrong_status_is_noop [of demo_env "''ap2''" _ t0 t0 demo_world _ "Some ''sub1''" "''scheduled''"]
  by (simp add: demo_env_def)

subsection \<open>The grant of a one-time payment\<close>

text \<open>
  For the durations and plans of the catalog the tables give the documented values, and
  a name that is neither in a table nor a property of \<^verbatim>\<open>Object.prototype\<close> gets the
  default.
\<close>

lemma payment_grant_known:
  "du \<in> {''1m'', ''3m'', ''6m''} \<Longrightarrow> licenseType (payment_grant pid pm pl du) = Val ''Monthly''"
  "licenseType (payment_grant pid pm pl ''12m'') = Val ''Annual''"
  "months (payment_grant pid pm pl ''1m'') = Val 1"
  "months (payment_grant pid pm pl ''3m'') = Val 3"
  "months (payment_grant pid pm pl ''6m'') = Val 6"
  "months (payment_grant pid pm pl ''12m'') = Val 12"
  "maxDevices (payment_grant pid pm ''individual'' du) = Val 1"
  "maxDevices (payment_grant pid pm ''profesional'' du) = Val 3"
  by (auto simp: payment_grant_def or_default_def js_get_def DURATION_LICENSE_def
        DURATION_MONTHS_def PLAN_MAX_DEVICES_def)

lemma payment_grant_unknown:
  "du \<notin> {''1m'', ''3m'', ''6m'', ''12m''} \<Longrightarrow> du \<notin> set object_prototype_keys \<Longrightarrow>
     licenseType (payment_grant pid pm pl du) = Val ''Monthly''
     \<and> months (payment_grant pid pm pl du) = Val 1"
  "pl \<notin> {''individual'', ''profesional''} \<Longrightarrow> pl \<notin> set object_prototype_keys \<Longrightarrow>
     maxDevices (payment_grant pid pm pl du) = Val 1"
  by (auto simp: payment_grant_def or_default_def js_get_def DURATION_LICENSE_def
        DURATION_MONTHS_def PLAN_MAX_DEVICES_def)

text \<open>
  Claim C5: the grant derived from a payment's reference maps the durations 1m, 3m and
  6m to \<^verbatim>\<open>Monthly\<close> and 12m to \<^verbatim>\<open>Annual\<close>, the plans individual and profesional to 1
  and 3 devices, and every unknown duration or plan to the defaults (\<^verbatim>\<open>Monthly\<close>, 1
  month, 1 device). The code misses the default for a name that every object literal
  inherits: for the duration \<^verbatim>\<open>constructor\<close> the license type and the months are the
  function \<^verbatim>\<open>Object\<close>, for the plan \<^verbatim>\<open>toString\<close> the device count is a function.
  An approved payment with such a reference creates the account and then throws, so the
  account has no license.
\<close>

theorem inherited_names_are_not_defaulted:
  "licenseType (payment_grant ''125'' demo_payment ''individual'' ''constructor'')
     = Builtin ''constructor''
   \<and> months (payment_grant ''125'' demo_payment ''individual'' ''constructor'')
     = Builtin ''constructor''
   \<and> maxDevices (payment_grant ''125'' demo_payment ''toString'' ''1m'') = Builtin ''toString''
   \<and> fst (handlePayment demo_env t0 t0 ''125'' demo_world) = Inl RangeError
   \<and> users (snd (handlePayment demo_env t0 t0 ''125'' demo_world)) ''uid-a@b.com'' = None"
  by code_simp

theorem inherited_names_are_not_defaulted_witness:
  "fst (handlePayment demo_env t0 t0 ''125'' demo_world) \<noteq> Inr ()
   \<and> licenseType (payment_grant ''125'' demo_payment ''individual'' ''constructor'')
       \<noteq> Val ''Monthly''"
  using inherited_names_are_not_defaulted by simp

subsection \<open>The plan of a subscription\<close>

text \<open>
  Claim C6. For an authorized preapproval (with a payer email) the license is activated
  with the grant \<open>subscription_grant\<close>, whose plan is \<^verbatim>\<open>profesional\<close> exactly when the
  recurring transaction amount is at least 25, the price of the profesional subscription,
  and \<^verbatim>\<open>individual\<close> otherwise; an amount that is missing counts as 0.
\<close>

theorem plan_inferred_from_amount:
  assumes "preapproval_get ev pre = Inr ps" and "s_status ps = ''authorized''"
    and "s_payer_email ps = Some email" and "email \<noteq> []"
  shows "handleSubscription ev now now' pre w
           = activateLicense ev now now' email (subscription_grant pre ps) w
         \<and> (plan (subscription_grant pre ps) = ''profesional'' \<longleftrightarrow> recurring_amount ps \<ge> 25)
         \<and> (plan (subscription_grant pre ps) = ''individual'' \<longleftrightarrow> recurring_amount ps < 25)
         \<and> recurring_amount ps =
             (case s_auto_recurring ps of None \<Rightarrow> 0
              | Some ar \<Rightarrow> (case ar_transaction_amount ar of None \<Rightarrow> 0 | Some a \<Rightarrow> a))
         \<and> js_get SUBSCRIPTION_PRICES ''profesional'' = Val 25"
  using assms
  by (simp add: handleSubscription_def subscription_grant_def inferred_plan_def truthy_def
        recurring_amount_def js_get_def SUBSCRIPTION_PRICES_def)

theorem plan_inferred_from_amount_witness:
  "handleSubscription demo_env t0 t0 ''sub1'' demo_world
     = activateLicense demo_env t0 t0 ''a@b.com'' (subscription_grant ''sub1'' demo_preapproval) demo_world
   \<and> plan (subscription_grant ''sub1'' demo_preapproval) = ''profesional''
   \<and> recurring_amount demo_preapproval = 25"
  using plan_inferred_from_amount [of demo_env "''sub1''" demo_preapproval "''a@b.com''" t0 t0 demo_world]
  by (simp add: demo_env_def demo_preapproval_def)

subsection \<open>Checkout validation\<close>

text \<open>
  The checks of the one-time checkout in their order: the method, the required fields,
  the shape of the email, the catalog; and the answer when the processor fails.
\<close>

text \<open>
  The email test, as the regular expression reads: some local part, \<^verbatim>\<open>@\<close>, some domain
  part, a dot, some last part, all three non-empty and free of white space and \<^verbatim>\<open>@\<close>.
\<close>

lemma takeWhile_dropWhile_split:
  assumes "list_all P a" and "\<not> P x"
  shows "takeWhile P (a @ x # r) = a" and "dropWhile P (a @ x # r) = x # r"
  using assms by (induction a) auto

lemma emailRx_test_iff:
  "emailRx_test s \<longleftrightarrow>
     (\<exists>a b c. s = a @ ''@'' @ b @ ''.'' @ c \<and> a \<noteq> [] \<and> b \<noteq> [] \<and> c \<noteq> []
        \<and> list_all plain a \<and> list_all plain b \<and> list_all plain c)"
proof
  assume t: "emailRx_test s"
  define a where "a = takeWhile plain s"
  from t obtain x dm where d: "dropWhile plain s = x # dm" and x: "x = CHR ''@''"
    and pd: "list_all plain dm" and ex: "list_ex (\<lambda>i. dm ! i = CHR ''.'') [1..<length dm - 1]"
    by (auto simp: emailRx_test_def split: list.splits)
  from t have a: "a \<noteq> []" by (simp add: emailRx_test_def a_def)
  have pa: "list_all plain a"
    unfolding a_def list_all_iff using set_takeWhileD by fastforce
  have s: "s = a @ x # dm"
    using takeWhile_dropWhile_id [of plain s] d by (simp add: a_def)
  from ex obtain i where i: "1 \<le> i" "i + 1 < length dm" "dm ! i = CHR ''.''"
    by (auto simp: list_ex_iff)
  define b where "b = take i dm"
  define c where "c = drop (Suc i) dm"
  have dm: "dm = b @ CHR ''.'' # c"
    using i id_take_nth_drop [of i dm] by (simp add: b_def c_def)
  have "b \<noteq> []" "c \<noteq> []" using i by (auto simp: b_def c_def)
  moreover have "list_all plain b" "list_all plain c"
    using pd dm by (metis list_all_append list.pred_inject(2))+
  ultimately show "\<exists>a b c. s = a @ ''@'' @ b @ ''.'' @ c \<and> a \<noteq> [] \<and> b \<noteq> [] \<and> c \<noteq> []
        \<and> list_all plain a \<and> list_all plain b \<and> list_all plain c"
    using s x dm a pa by auto
next
  assume "\<exists>a b c. s = a @ ''@'' @ b @ ''.'' @ c \<and> a \<noteq> [] \<and> b \<noteq> [] \<and> c \<noteq> []
        \<and> list_all plain a \<and> list_all plain b \<and> list_all plain c"
  then obtain a b c where s: "s = a @ CHR ''@'' # (b @ CHR ''.'' # c)"
    and ne: "a \<noteq> []" "b \<noteq> []" "c \<noteq> []"
    and p: "list_all plain a" "list_all plain b" "list_all plain c"
    by auto
  have at: "\<not> plain CHR ''@''" by (simp add: plain_def)
  have dot: "plain CHR ''.''" by (simp add: plain_def is_space_def)
  have tw: "takeWhile plain s = a" and dw: "dropWhile plain s = CHR ''@'' # (b @ CHR ''.'' # c)"
    unfolding s by (rule takeWhile_dropWhile_split [OF p(1) at])+
  have "Suc 0 \<le> length b" using ne(2) by (cases b) simp_all
  moreover have "Suc 0 \<le> length c" using ne(3) by (cases c) simp_all
  ultimately have "1 \<le> length b \<and> length b < length (b @ CHR ''.'' # c) - 1"
    using ne by simp
  then have "length b \<in> set [1..<length (b @ CHR ''.'' # c) - 1]"
    by (simp only: set_upt atLeastLessThan_iff)
  moreover have "(b @ CHR ''.'' # c) ! length b = CHR ''.''" by simp
  ultimately have "list_ex (\<lambda>i. (b @ CHR ''.'' # c) ! i = CHR ''.'') [1..<length (b @ CHR ''.'' # c) - 1]"
    unfolding list_ex_iff by blast
  then show "emailRx_test s"
    using ne p dot by (simp add: emailRx_test_def tw dw)
qed

lemma checkout_rejections:
  "c_method req = ''OPTIONS'' \<Longrightarrow>
     create_preference_handler cev req = (\<lparr>c_status = 200, c_body = NoBody\<rparr>, [])"
  "c_method req \<noteq> ''OPTIONS'' \<Longrightarrow> c_method req \<noteq> ''POST'' \<Longrightarrow>
     create_preference_handler cev req
       = (\<lparr>c_status = 405, c_body = ErrorBody MethodNotAllowed\<rparr>, [])"
  "c_method req = ''POST'' \<Longrightarrow>
     \<not> truthy (c_email req) \<or> \<not> truthy (c_plan req) \<or> \<not> truthy (c_duration req) \<Longrightarrow>
     create_preference_handler cev req
       = (\<lparr>c_status = 400, c_body = ErrorBody FieldsRequired\<rparr>, [])"
  "c_method req = ''POST'' \<Longrightarrow>
     truthy (c_email req) \<Longrightarrow> truthy (c_plan req) \<Longrightarrow> truthy (c_duration req) \<Longrightarrow>
     \<not> emailRx_test (the (c_email req)) \<Longrightarrow>
     create_preference_handler cev req
       = (\<lparr>c_status = 400, c_body = ErrorBody InvalidEmail\<rparr>, [])"
  by (auto simp: create_preference_handler_def)

lemma catalog_lookup_own:
  "pl \<notin> set object_prototype_keys \<Longrightarrow> du \<notin> set object_prototype_keys \<Longrightarrow>
     catalog_lookup cev pl du
       = (case map_of CATALOG pl of None \<Rightarrow> Undefined
          | Some ds \<Rightarrow> (case map_of ds du of None \<Rightarrow> Undefined | Some i \<Rightarrow> Val i))"
  by (auto simp: catalog_lookup_def js_get_def split: option.splits)

lemma checkout_unknown_combination:
  assumes "c_method req = ''POST''" and "c_email req = Some e" and "emailRx_test e"
    and "c_plan req = Some pl" and "pl \<noteq> []" and "c_duration req = Some du" and "du \<noteq> []"
    and "pl \<notin> set object_prototype_keys" and "du \<notin> set object_prototype_keys"
    and "pl \<notin> {''individual'', ''profesional''} \<or> du \<notin> {''1m'', ''3m'', ''6m'', ''12m''}"
  shows "create_preference_handler cev req
           = (\<lparr>c_status = 400, c_body = ErrorBody (InvalidCombination pl du)\<rparr>, [])"
proof -
  have e: "e \<noteq> []" using assms(3) by (auto simp: emailRx_test_def)
  have "catalog_lookup cev pl du = Undefined"
    using assms(10)
    by (auto simp: catalog_lookup_own [OF assms(8,9)] CATALOG_def split: option.splits)
  then show ?thesis
    using assms e by (simp add: create_preference_handler_def truthy_def Let_def)
qed

lemma checkout_upstream_failure:
  assumes "create_preference_handler cev req = (res, calls)" and "calls \<noteq> []"
  shows "\<exists>b. calls = [b] \<and>
           (case preference_create cev b of
              Inl _ \<Rightarrow> res = \<lparr>c_status = 500, c_body = ErrorBody CouldNotCreate\<rparr>
            | Inr p \<Rightarrow> c_status res = 200)"
  using assms
  by (auto simp: create_preference_handler_def Let_def split: if_splits js.splits sum.splits)

text \<open>
  Claim C8: checkout creation answers 400 without calling the processor when a
  required field is missing, the email is malformed or the plan and duration are not in
  the catalog; 500 when the processor fails; 405 for other methods. The catalog check
  misses the names that object literals inherit: for plan \<^verbatim>\<open>individual\<close> and duration
  \<^verbatim>\<open>toString\<close> (one-time), and for plan \<^verbatim>\<open>constructor\<close> (subscription), the lookup
  finds a built-in function, the request passes validation and the processor is called
  once, with no price; the answer is 200 or 500, whatever the processor does.
\<close>

theorem inherited_key_passes_validation:
  "c_status (fst (create_preference_handler cev (checkout ''a@b.co'' ''individual'' ''toString'')))
     \<in> {200, 500}
   \<and> length (snd (create_preference_handler cev (checkout ''a@b.co'' ''individual'' ''toString''))) = 1
   \<and> c_status (fst (create_subscription_handler cev (checkout ''a@b.co'' ''constructor'' [])))
     \<in> {200, 500}
   \<and> length (snd (create_subscription_handler cev (checkout ''a@b.co'' ''constructor'' []))) = 1"
proof -
  have e: "emailRx_test ''a@b.co''" by code_simp
  have l: "catalog_lookup cev ''individual'' ''toString'' = Builtin ''toString''"
    "js_get SUBSCRIPTION_PRICES ''constructor'' = Builtin ''constructor''"
    by (simp_all add: catalog_lookup_def js_get_def CATALOG_def SUBSCRIPTION_PRICES_def
          object_prototype_keys_def)
  show ?thesis
    by (auto simp: create_preference_handler_def create_subscription_handler_def checkout_def
          truthy_def e l Let_def split: sum.splits)
qed

theorem inherited_key_passes_validation_witness:
  "fst (create_preference_handler demo_checkout_env (checkout ''a@b.co'' ''individual'' ''toString''))
     = \<lparr>c_status = 200, c_body = Links (Some ''https://pay/1'') (Some ''https://sandbox/1'')\<rparr>
   \<and> map unit_price
        (snd (create_preference_handler demo_checkout_env
           (checkout ''a@b.co'' ''individual'' ''toString''))) = [None]"
proof -
  have e: "emailRx_test ''a@b.co''" by code_simp
  have l: "catalog_lookup demo_checkout_env ''individual'' ''toString'' = Builtin ''toString''"
    by (simp add: catalog_lookup_def js_get_def CATALOG_def object_prototype_keys_def)
  show ?thesis
    using inherited_key_passes_validation [of demo_checkout_env]
    by (simp add: create_preference_handler_def checkout_def truthy_def e l Let_def)
       (simp add: demo_checkout_env_def)
qed

subsection \<open>The webhook's answer\<close>

text \<open>
  Claim C9. Whatever the request, the environment and the state, the webhook handler
  answers with status 200 and an empty body, and no exception leaves it: the result is
  never \<open>Inl\<close>. This covers a rejected signature, a missing topic or id, an unknown
  topic, a failed fetch from the processor and every exception of the processing.
\<close>

theorem webhook_always_200:
  "fst (webhook_handler ev now now' req w) = Inr \<lparr>status = 200, body = []\<rparr>"
  by (simp add: webhook_handler_def Let_def split: prod.splits)

theorem webhook_always_200_witness:
  "fst (webhook_handler demo_env t0 t0 (payment_event ''999'') demo_world)
     = Inr \<lparr>status = 200, body = []\<rparr>
   \<and> fst (process_event demo_env t0 t0 (payment_event ''999'') demo_world) = Inl UpstreamError"
  using webhook_always_200 [of demo_env t0 t0 "payment_event ''999''" demo_world]
  by (simp add: process_event_def signature_rejected_def demo_env_def payment_event_def
        event_topic_def event_id_def or_else_def or_opt_def truthy_def handlePayment_def)

subsection \<open>What an activation leaves alone\<close>

text \<open>
  Claim C10. An activation for an account that already exists leaves the node's
  \<^verbatim>\<open>CreatedAt\<close>, \<^verbatim>\<open>ValidationCount\<close> and \<^verbatim>\<open>activations\<close> as they were, and the payment
  history under every id other than the delivered one; the subscription sub-record
  changes only when a preapproval id is present. The nodes of all other users, the
  accounts and the outbox are unchanged as well. This holds whether the call returns
  or throws.
\<close>

theorem activation_frame:
  assumes "accounts w email = Some uid"
    and "activateLicense ev now now' email info w = (r, w')"
  shows "CreatedAt (node_of w' uid) = CreatedAt (node_of w uid)
       \<and> ValidationCount (node_of w' uid) = ValidationCount (node_of w uid)
       \<and> activations (node_of w' uid) = activations (node_of w uid)
       \<and> (\<forall>pid. paymentId info \<noteq> Some pid \<longrightarrow>
             payments (node_of w' uid) pid = payments (node_of w uid) pid)
       \<and> (\<not> truthy (preapprovalId info) \<longrightarrow>
             subscription (node_of w' uid) = subscription (node_of w uid))
       \<and> (\<forall>u. u \<noteq> uid \<longrightarrow> users w' u = users w u)
       \<and> accounts w' = accounts w \<and> outbox w' = outbox w"
  using assms
  by (auto simp: activate_unfold find_or_create_existing users_put_node
      split: sum.splits js.splits if_splits prod.splits)

theorem activation_frame_witness:
  "CreatedAt (node_of (snd (activateLicense demo_env t0 t0 ''a@b.com''
       (payment_grant ''123'' demo_payment ''individual'' ''3m'') member_world)) ''u1'')
     = Some 1700000000000
   \<and> ValidationCount (node_of (snd (activateLicense demo_env t0 t0 ''a@b.com''
       (payment_grant ''123'' demo_payment ''individual'' ''3m'') member_world)) ''u1'')
     = Some 7
   \<and> activations (node_of (snd (activateLicense demo_env t0 t0 ''a@b.com''
       (payment_grant ''123'' demo_payment ''individual'' ''3m'') member_world)) ''u1'')
     = [''device-1'']"
  using activation_frame [of member_world "''a@b.com''" "''u1''" demo_env t0 t0
      "payment_grant ''123'' demo_payment ''individual'' ''3m''"
      "fst (activateLicense demo_env t0 t0 ''a@b.com''
         (payment_grant ''123'' demo_payment ''individual'' ''3m'') member_world)"
      "snd (activateLicense demo_env t0 t0 ''a@b.com''
         (payment_grant ''123'' demo_payment ''individual'' ''3m'') member_world)"]
  by (simp add: member_world_def node_of_def empty_node_def)

subsection \<open>The payment history\<close>

text \<open>
  Claim C7 says that a payment-history entry never changes once written. A redelivery
  of the same payment id writes the entry again with \<^verbatim>\<open>set\<close>, and the entry's date is
  the time of the redelivery: in the test environment the date moves from \<open>t0\<close> to
  \<open>t0 + 1000\<close>.
\<close>

theorem redelivery_changes_entry:
  "map_option pe_date (payments (node_of after_first ''uid-a@b.com'') ''123'') = Some 1793613600000
   \<and> map_option pe_date (payments (node_of after_second ''uid-a@b.com'') ''123'') = Some 1793613601000
   \<and> payments (node_of after_second ''uid-a@b.com'') ''123''
       \<noteq> payments (node_of after_first ''uid-a@b.com'') ''123''"
proof -
  have "payments (node_of after_second ''uid-a@b.com'') ''123''
          \<noteq> payments (node_of after_first ''uid-a@b.com'') ''123''"
  proof
    assume "payments (node_of after_second ''uid-a@b.com'') ''123''
              = payments (node_of after_first ''uid-a@b.com'') ''123''"
    then have "map_option pe_date (payments (node_of after_second ''uid-a@b.com'') ''123'')
                 = map_option pe_date (payments (node_of after_first ''uid-a@b.com'') ''123'')"
      by simp
    then show False by (simp add: first_delivery second_delivery)
  qed
  then show ?thesis by (simp add: first_delivery second_delivery)
qed

text \<open>
  Claim C7 as amended. A payment-history entry is changed by no event other than a
  payment notification that carries the entry's own payment id: every subscription
  event and every payment event with another id leaves the entry of every user under
  that id as it was. A successful redelivery of the same id replaces the entry by the
  one built from the redelivered payment, dated with the time of the redelivery.
\<close>

theorem history_entry_rewritten_only_by_its_own_id:
  "(event_topic req \<noteq> ''payment'' \<or> event_id req \<noteq> pid \<longrightarrow>
      payments (node_of (snd (webhook_handler ev now now' req w)) u) pid
        = payments (node_of w u) pid)
   \<and> (payment_get ev pid = Inr pm \<and> p_status pm = ''approved''
        \<and> p_external_reference pm = Ref (Some email) p d \<and> email \<noteq> [] \<and> pid \<noteq> []
        \<and> handlePayment ev now now' pid w = (Inr (), w') \<and> accounts w' email = Some uid
      \<longrightarrow> payments (node_of w' uid) pid
            = Some (history_entry
                (payment_grant pid pm (or_else p ''individual'') (or_else d ''1m'')) now))"
proof (intro conjI impI)
  assume h: "event_topic req \<noteq> ''payment'' \<or> event_id req \<noteq> pid"
  obtain r w1 where p: "process_event ev now now' req w = (r, w1)"
    by (cases "process_event ev now now' req w")
  have "payments (node_of w1 u) pid = payments (node_of w u) pid"
    using p h
    by (auto simp: process_event_def Let_def split: if_splits
        dest: handlePayment_history [where pid = pid and u = u]
              handleSubscription_history [where pid = pid and u = u]
              handleSubscriptionRenewal_history [where pid = pid and u = u])
  then show "payments (node_of (snd (webhook_handler ev now now' req w)) u) pid
               = payments (node_of w u) pid"
    using p by (simp add: webhook_handler_def Let_def)
next
  assume a: "payment_get ev pid = Inr pm \<and> p_status pm = ''approved''
        \<and> p_external_reference pm = Ref (Some email) p d \<and> email \<noteq> [] \<and> pid \<noteq> []
        \<and> handlePayment ev now now' pid w = (Inr (), w') \<and> accounts w' email = Some uid"
  then have "activateLicense ev now now' email
               (payment_grant pid pm (or_else p ''individual'') (or_else d ''1m'')) w = (Inr (), w')"
    using handlePayment_approved [of ev pid pm email p d now now' w] by simp
  from activateLicense_success [OF this] a
  show "payments (node_of w' uid) pid
            = Some (history_entry
                (payment_grant pid pm (or_else p ''individual'') (or_else d ''1m'')) now)"
    by (auto simp: payment_grant_def)
qed

theorem history_entry_rewritten_only_by_its_own_id_witness:
  "payments (node_of (snd (webhook_handler demo_env (t0 + 1000) (t0 + 1000) (payment_event ''124'')
       after_first)) ''uid-a@b.com'') ''123''
     = payments (node_of after_first ''uid-a@b.com'') ''123''
   \<and> payments (node_of after_first ''uid-a@b.com'') ''123''
     = Some (history_entry (payment_grant ''123'' demo_payment ''individual'' ''3m'') t0)"
proof -
  have 1: "payment_get demo_env ''123'' = Inr demo_payment \<and> p_status demo_payment = ''approved''
        \<and> p_external_reference demo_payment
             = Ref (Some ''a@b.com'') (Some ''individual'') (Some ''3m'')
        \<and> ''a@b.com'' \<noteq> [] \<and> ''123'' \<noteq> []
        \<and> handlePayment demo_env t0 t0 ''123'' demo_world = (Inr (), after_first)
        \<and> accounts after_first ''a@b.com'' = Some ''uid-a@b.com''"
    using first_delivery(1,2)
    by (simp add: demo_env_def demo_payment_def after_first_def prod_eq_iff)
  have 2: "event_id (payment_event ''124'') \<noteq> ''123''"
    by (simp add: event_id_def payment_event_def or_else_def or_opt_def truthy_def)
  show ?thesis
    using history_entry_rewritten_only_by_its_own_id
            [of "payment_event ''124''" "''123''" demo_env "t0 + 1000" "t0 + 1000" after_first
                "''uid-a@b.com''"]
          history_entry_rewritten_only_by_its_own_id
            [of _ "''123''" demo_env t0 t0 demo_world _ demo_payment "''a@b.com''"
                "Some ''individual''" "Some ''3m''" after_first "''uid-a@b.com''"]
          1 2
    by (simp add: or_else_def)
qed

end
